theory Spec2Isabelle
  imports Main
begin

section \<open>Identifiers, root metadata and errors\<close>

text \<open>
  The per-folder metadata journal of \<^verbatim>\<open>md_journal.go\<close>. An MdID is a hash, a byte
  string, and the Go zero value \<^verbatim>\<open>MdID{}\<close> is the empty one. A branch ID is a number
  whose value 0 is \<^verbatim>\<open>NullBranchID\<close>. A \<^verbatim>\<open>MetadataRevision\<close> is a signed integer.
\<close>

type_synonym bytes = "nat list"
type_synonym MdID = bytes
type_synonym BranchID = nat
type_synonym MetadataRevision = int
type_synonym UID = nat
type_synonym VerifyingKey = nat
type_synonym time = nat

abbreviation (input) NullBranchID :: BranchID where "NullBranchID \<equiv> 0"
abbreviation (input) zeroMdID :: MdID where "zeroMdID \<equiv> []"

datatype MergeStatus = Merged | Unmerged

text \<open>
  The fields of a bare root metadata object that the journal reads or sets. \<open>Rest\<close> stands
  for everything the journal never looks at (folder id, key bundles, serialized private
  data, last modifier).
\<close>

record BareRootMetadata =
  Revision :: MetadataRevision
  BID :: BranchID
  PrevRoot :: MdID
  UnmergedFlag :: bool
  WriterMetadataSigInfo :: nat
  Rest :: nat

definition MergedStatus :: "BareRootMetadata \<Rightarrow> MergeStatus" where
  "MergedStatus r = (if UnmergedFlag r then Unmerged else Merged)"

definition SetUnmerged :: "BareRootMetadata \<Rightarrow> BareRootMetadata" where
  "SetUnmerged r = r\<lparr>UnmergedFlag := True\<rparr>"

definition SetBranchID :: "BranchID \<Rightarrow> BareRootMetadata \<Rightarrow> BareRootMetadata" where
  "SetBranchID b r = r\<lparr>BID := b\<rparr>"

definition SetPrevRoot :: "MdID \<Rightarrow> BareRootMetadata \<Rightarrow> BareRootMetadata" where
  "SetPrevRoot p r = r\<lparr>PrevRoot := p\<rparr>"

definition SetWriterMetadataSigInfo :: "nat \<Rightarrow> BareRootMetadata \<Rightarrow> BareRootMetadata" where
  "SetWriterMetadataSigInfo s r = r\<lparr>WriterMetadataSigInfo := s\<rparr>"

text \<open>
  A \<^verbatim>\<open>RootMetadata\<close> is the bare object plus its private data; of the latter \<^verbatim>\<open>put\<close>
  reads only the block changes and whether their block pointer is the zero pointer.
\<close>

record RootMetadata =
  bareMd :: BareRootMetadata
  ChangesPtrIsZero :: bool
  Changes :: nat

record ImmutableBareRootMetadata =
  brmd :: BareRootMetadata
  mdID :: MdID
  localTimestamp :: time

record RootMetadataSigned =
  MD :: BareRootMetadata
  SigInfo :: nat

datatype error =
    ErrNotExist
  | ErrIO
  | ErrMdIDMismatch
  | ErrBranchIDMismatch
  | ErrConvertOnBranch
  | MutableBareRootMetadataNoImplError
  | ErrJournalEmpty
  | ErrUnexpectedMdID
  | ErrNotEarliest
  | MDJournalConflictError
  | ErrUnmergedNullBID
  | ErrMStatusBID
  | MDServerErrorUnauthorized
  | ErrEmbeddedBlockChanges
  | ErrClearMaster
  | ErrPanic
  | ErrAppendOrdinal
  | ErrExternal nat

text \<open>
  Filesystem calls that can fail. Which of them fail during a call is decided by the
  \<open>fault\<close> oracle of the environment; a failing call returns \<open>ErrIO\<close>, which is not a
  not-exist error.
\<close>

datatype ioOp =
    ReadFile MdID | Stat MdID | MkdirAll MdID | WriteFile MdID | Remove MdID
  | OpGetEarliest | OpGetLatest | OpReadEarliestRevision | OpReadLatestRevision
  | OpGetRange | OpAppend | OpReplaceHead | OpRemoveEarliest | OpClear | OpMove
  | OpLength | OpEnd

text \<open>
  The collaborators the journal consumes (codec, crypto, signer, key getter, block
  splitter, permission and successor checks, the clock and the temp-dir call) are
  parameters. An \<open>error option\<close> is a Go \<^verbatim>\<open>error\<close> result: \<open>None\<close> is \<^verbatim>\<open>nil\<close>.
\<close>

record env =
  Encode :: "BareRootMetadata \<Rightarrow> error + bytes"
  Decode :: "bytes \<Rightarrow> error + BareRootMetadata"
  CodecEqual :: "BareRootMetadata \<Rightarrow> BareRootMetadata \<Rightarrow> error + bool"
  MakeMdID :: "BareRootMetadata \<Rightarrow> error + MdID"
  MakeRandomBranchID :: "error + BranchID"
  IsLastModifiedBy :: "BareRootMetadata \<Rightarrow> UID \<Rightarrow> VerifyingKey \<Rightarrow> error option"
  IsValidAndSigned :: "BareRootMetadata \<Rightarrow> error option"
  isReader :: "UID \<Rightarrow> BareRootMetadata \<Rightarrow> nat \<Rightarrow> error + bool"
  isWriterOrValidRekey :: "UID \<Rightarrow> BareRootMetadata \<Rightarrow> BareRootMetadata \<Rightarrow> error + bool"
  CheckValidSuccessorForServer :: "BareRootMetadata \<Rightarrow> MdID \<Rightarrow> BareRootMetadata \<Rightarrow> error option"
  ShouldEmbedBlockChanges :: "nat \<Rightarrow> bool"
  encryptMDPrivateData :: "UID \<Rightarrow> RootMetadata \<Rightarrow> error + BareRootMetadata"
  GetSerializedWriterMetadata :: "BareRootMetadata \<Rightarrow> error + bytes"
  Sign :: "bytes \<Rightarrow> error + nat"
  signMD :: "BareRootMetadata \<Rightarrow> error + nat"
  TempDir :: "error + string"
  fault :: "ioOp \<Rightarrow> bool"
  now :: time

section \<open>The ordinal log\<close>

text \<open>
  Modelled from the spec: the ordinal log \<^verbatim>\<open>mdIDJournal\<close>, whose type and methods live in
  another file of the repository; section 4.1 of the specification describes them. The
  log is the revision of its earliest entry and the MdIDs in order, so that revisions
  are consecutive by construction; entry \<open>i\<close> is \<open>(first + i, ids ! i)\<close>. As the callers
  in \<^verbatim>\<open>md_journal.go\<close> show, \<^verbatim>\<open>getEarliest\<close> and \<^verbatim>\<open>getLatest\<close> return the zero MdID
  for an empty log and every method can return an error. Where the specification is
  silent (revision readers and \<^verbatim>\<open>getRange\<close> on an empty log) the model returns 0, as
  \<^verbatim>\<open>end\<close> does; \<^verbatim>\<open>replaceHead\<close> and \<^verbatim>\<open>removeEarliest\<close> on an empty log fail.
\<close>

record mdIDJournal =
  dir :: string
  first :: MetadataRevision
  ids :: "MdID list"

text \<open>
  Modelled from the spec: \<^verbatim>\<open>makeMdIDJournal\<close>, the log of a directory; the model uses it
  for the fresh scratch directory only, whose log is empty.
\<close>

definition makeMdIDJournal :: "string \<Rightarrow> mdIDJournal" where
  "makeMdIDJournal d = \<lparr>dir = d, first = 0, ids = []\<rparr>"

text \<open>
  Modelled from the spec: an ordinal log entry is a pair \<open>(R, MdID)\<close>; the entries are
  ordered by \<open>R\<close> and have no gaps.
\<close>

definition entries :: "mdIDJournal \<Rightarrow> (MetadataRevision \<times> MdID) list" where
  "entries l = zip (map (\<lambda>i. first l + int i) [0..<length (ids l)]) (ids l)"

text \<open>
  Modelled from the spec: \<^verbatim>\<open>getEarliest\<close>, the MdID of the earliest entry, if any.
\<close>

definition j_getEarliest :: "(ioOp \<Rightarrow> bool) \<Rightarrow> mdIDJournal \<Rightarrow> error + MdID" where
  "j_getEarliest flt l =
     (if flt OpGetEarliest then Inl ErrIO
      else case ids l of [] \<Rightarrow> Inr zeroMdID | x # _ \<Rightarrow> Inr x)"

text \<open>
  Modelled from the spec: \<^verbatim>\<open>getLatest\<close>, the MdID of the latest entry, if any.
\<close>

definition j_getLatest :: "(ioOp \<Rightarrow> bool) \<Rightarrow> mdIDJournal \<Rightarrow> error + MdID" where
  "j_getLatest flt l =
     (if flt OpGetLatest then Inl ErrIO
      else if ids l = [] then Inr zeroMdID else Inr (last (ids l)))"

text \<open>
  Modelled from the spec: \<^verbatim>\<open>readEarliestRevision\<close>, the revision of the earliest entry.
\<close>

definition j_readEarliestRevision ::
  "(ioOp \<Rightarrow> bool) \<Rightarrow> mdIDJournal \<Rightarrow> error + MetadataRevision" where
  "j_readEarliestRevision flt l =
     (if flt OpReadEarliestRevision then Inl ErrIO
      else if ids l = [] then Inr 0 else Inr (first l))"

text \<open>
  Modelled from the spec: \<^verbatim>\<open>readLatestRevision\<close>, the revision of the latest entry.
\<close>

definition j_readLatestRevision ::
  "(ioOp \<Rightarrow> bool) \<Rightarrow> mdIDJournal \<Rightarrow> error + MetadataRevision" where
  "j_readLatestRevision flt l =
     (if flt OpReadLatestRevision then Inl ErrIO
      else if ids l = [] then Inr 0 else Inr (first l + int (length (ids l)) - 1))"

text \<open>
  Modelled from the spec: \<^verbatim>\<open>end\<close>, one past the latest revision, or 0.
\<close>

definition j_end :: "(ioOp \<Rightarrow> bool) \<Rightarrow> mdIDJournal \<Rightarrow> error + MetadataRevision" where
  "j_end flt l =
     (if flt OpEnd then Inl ErrIO
      else if ids l = [] then Inr 0 else Inr (first l + int (length (ids l))))"

text \<open>
  Modelled from the spec: \<^verbatim>\<open>length\<close>, the number of entries.
\<close>

definition j_length :: "(ioOp \<Rightarrow> bool) \<Rightarrow> mdIDJournal \<Rightarrow> error + nat" where
  "j_length flt l = (if flt OpLength then Inl ErrIO else Inr (length (ids l)))"

text \<open>
  Modelled from the spec: \<^verbatim>\<open>getRange(start, stop)\<close> returns the first revision in range
  and the MdIDs of the revisions in \<open>[max(earliest, start), min(latest, stop)]\<close>.
\<close>

definition j_getRange ::
  "(ioOp \<Rightarrow> bool) \<Rightarrow> mdIDJournal \<Rightarrow> MetadataRevision \<Rightarrow> MetadataRevision
     \<Rightarrow> error + MetadataRevision \<times> MdID list" where
  "j_getRange flt l start stop =
     (if flt OpGetRange then Inl ErrIO
      else if ids l = [] then Inr (0, [])
      else
        let realStart = max (first l) start;
            realStop = min (first l + int (length (ids l)) - 1) stop
        in Inr (realStart,
                take (nat (realStop - realStart + 1)) (drop (nat (realStart - first l)) (ids l))))"

text \<open>
  Modelled from the spec: \<^verbatim>\<open>append(R, id)\<close> fails if the log is non-empty and \<open>R\<close> is not
  the revision after the latest.
\<close>

definition j_append ::
  "(ioOp \<Rightarrow> bool) \<Rightarrow> mdIDJournal \<Rightarrow> MetadataRevision \<Rightarrow> MdID \<Rightarrow> error + mdIDJournal" where
  "j_append flt l r i =
     (if flt OpAppend then Inl ErrIO
      else if ids l = [] then Inr (l\<lparr>first := r, ids := [i]\<rparr>)
      else if r \<noteq> first l + int (length (ids l)) then Inl ErrAppendOrdinal
      else Inr (l\<lparr>ids := ids l @ [i]\<rparr>))"

text \<open>
  Modelled from the spec: \<^verbatim>\<open>replaceHead(id)\<close> replaces the MdID at the latest revision;
  the revision stays.
\<close>

definition j_replaceHead :: "(ioOp \<Rightarrow> bool) \<Rightarrow> mdIDJournal \<Rightarrow> MdID \<Rightarrow> error + mdIDJournal" where
  "j_replaceHead flt l i =
     (if flt OpReplaceHead then Inl ErrIO
      else if ids l = [] then Inl ErrNotExist
      else Inr (l\<lparr>ids := butlast (ids l) @ [i]\<rparr>))"

text \<open>
  Modelled from the spec: \<^verbatim>\<open>removeEarliest\<close> drops the earliest entry and reports whether
  the log is now empty.
\<close>

definition j_removeEarliest :: "(ioOp \<Rightarrow> bool) \<Rightarrow> mdIDJournal \<Rightarrow> error + bool \<times> mdIDJournal" where
  "j_removeEarliest flt l =
     (if flt OpRemoveEarliest then Inl ErrIO
      else case ids l of
             [] \<Rightarrow> Inl ErrNotExist
           | _ # rest \<Rightarrow> Inr (rest = [], l\<lparr>first := first l + 1, ids := rest\<rparr>))"

text \<open>
  Modelled from the spec: \<^verbatim>\<open>clear\<close> empties the log.
\<close>

definition j_clear :: "(ioOp \<Rightarrow> bool) \<Rightarrow> mdIDJournal \<Rightarrow> error + mdIDJournal" where
  "j_clear flt l = (if flt OpClear then Inl ErrIO else Inr (l\<lparr>ids := []\<rparr>))"

text \<open>
  Modelled from the spec: \<^verbatim>\<open>move(newDir)\<close> renames the log's directory; as its callers
  show, it returns the old directory.
\<close>

definition j_move :: "(ioOp \<Rightarrow> bool) \<Rightarrow> mdIDJournal \<Rightarrow> string \<Rightarrow> error + string \<times> mdIDJournal" where
  "j_move flt l newDir =
     (if flt OpMove then Inl ErrIO else Inr (dir l, l\<lparr>dir := newDir\<rparr>))"

section \<open>The journal coordinator\<close>

text \<open>
  \<open>mds\<close> is the content store \<^verbatim>\<open>dir/mds\<close>: the file of an MdID holds encoded bytes and has
  a modification time (\<^verbatim>\<open>mdPath\<close> derives the path from the MdID, so the store is keyed by
  MdID). \<open>idJournal\<close> is the field \<^verbatim>\<open>j\<close> of the Go struct.
\<close>

record mdJournal =
  idJournal :: mdIDJournal
  mds :: "MdID \<rightharpoonup> bytes \<times> time"
  branchID :: BranchID
  lastMdID :: MdID

definition MakeImmutableBareRootMetadata ::
  "BareRootMetadata \<Rightarrow> MdID \<Rightarrow> time \<Rightarrow> error + ImmutableBareRootMetadata" where
  "MakeImmutableBareRootMetadata rmd i ts =
     (if i = zeroMdID then Inl ErrPanic
      else Inr \<lparr>brmd = rmd, mdID = i, localTimestamp = ts\<rparr>)"

text \<open>
  Every coordinator method takes the journal and returns its result together with the
  journal afterwards. \<^verbatim>\<open>getMD\<close> reads the file, decodes it, recomputes the MdID, checks
  last modifier, signature and (when asked) branch, and stats the file.
\<close>

definition getMD ::
  "env \<Rightarrow> UID \<Rightarrow> VerifyingKey \<Rightarrow> MdID \<Rightarrow> bool \<Rightarrow> mdJournal
     \<Rightarrow> (error + BareRootMetadata \<times> time) \<times> mdJournal" where
  "getMD E uid key i verifyBranchID J =
     (if fault E (ReadFile i) then (Inl ErrIO, J)
      else case mds J i of
        None \<Rightarrow> (Inl ErrNotExist, J)
      | Some (buf, mtime) \<Rightarrow>
         (case Decode E buf of
            Inl e \<Rightarrow> (Inl e, J)
          | Inr rmd \<Rightarrow>
             (case MakeMdID E rmd of
                Inl e \<Rightarrow> (Inl e, J)
              | Inr i' \<Rightarrow>
                 if i' \<noteq> i then (Inl ErrMdIDMismatch, J)
                 else (case IsLastModifiedBy E rmd uid key of
                    Some e \<Rightarrow> (Inl e, J)
                  | None \<Rightarrow>
                     (case IsValidAndSigned E rmd of
                        Some e \<Rightarrow> (Inl e, J)
                      | None \<Rightarrow>
                         if verifyBranchID \<and> BID rmd \<noteq> branchID J
                         then (Inl ErrBranchIDMismatch, J)
                         else if fault E (Stat i) then (Inl ErrIO, J)
                         else (Inr (rmd, mtime), J))))))"

text \<open>
  \<^verbatim>\<open>putMD\<close>: when \<^verbatim>\<open>getMD\<close> finds the entry, the Go code returns \<^verbatim>\<open>MdID{}, nil\<close>.
\<close>

definition putMD ::
  "env \<Rightarrow> UID \<Rightarrow> VerifyingKey \<Rightarrow> BareRootMetadata \<Rightarrow> mdJournal
     \<Rightarrow> (error + MdID) \<times> mdJournal" where
  "putMD E uid key rmd J =
     (case IsValidAndSigned E rmd of
        Some e \<Rightarrow> (Inl e, J)
      | None \<Rightarrow>
         (case IsLastModifiedBy E rmd uid key of
            Some e \<Rightarrow> (Inl e, J)
          | None \<Rightarrow>
             (case MakeMdID E rmd of
                Inl e \<Rightarrow> (Inl e, J)
              | Inr i \<Rightarrow>
                 (case getMD E uid key i True J of
                    (Inr _, J1) \<Rightarrow> (Inr zeroMdID, J1)
                  | (Inl e, J1) \<Rightarrow>
                     if e \<noteq> ErrNotExist then (Inl e, J1)
                     else if fault E (MkdirAll i) then (Inl ErrIO, J1)
                     else (case Encode E rmd of
                        Inl e' \<Rightarrow> (Inl e', J1)
                      | Inr buf \<Rightarrow>
                         if fault E (WriteFile i) then (Inl ErrIO, J1)
                         else (Inr i, J1\<lparr>mds := (mds J1)(i \<mapsto> (buf, now E))\<rparr>))))))"

definition getEarliest ::
  "env \<Rightarrow> UID \<Rightarrow> VerifyingKey \<Rightarrow> bool \<Rightarrow> mdJournal
     \<Rightarrow> (error + ImmutableBareRootMetadata option) \<times> mdJournal" where
  "getEarliest E uid key verifyBranchID J =
     (case j_getEarliest (fault E) (idJournal J) of
        Inl e \<Rightarrow> (Inl e, J)
      | Inr earliestID \<Rightarrow>
         if earliestID = zeroMdID then (Inr None, J)
         else (case getMD E uid key earliestID verifyBranchID J of
            (Inl e, J1) \<Rightarrow> (Inl e, J1)
          | (Inr (earliest, ts), J1) \<Rightarrow>
             (case MakeImmutableBareRootMetadata earliest earliestID ts of
                Inl e \<Rightarrow> (Inl e, J1)
              | Inr im \<Rightarrow> (Inr (Some im), J1))))"

definition getLatest ::
  "env \<Rightarrow> UID \<Rightarrow> VerifyingKey \<Rightarrow> bool \<Rightarrow> mdJournal
     \<Rightarrow> (error + ImmutableBareRootMetadata option) \<times> mdJournal" where
  "getLatest E uid key verifyBranchID J =
     (case j_getLatest (fault E) (idJournal J) of
        Inl e \<Rightarrow> (Inl e, J)
      | Inr latestID \<Rightarrow>
         if latestID = zeroMdID then (Inr None, J)
         else (case getMD E uid key latestID verifyBranchID J of
            (Inl e, J1) \<Rightarrow> (Inl e, J1)
          | (Inr (latest, ts), J1) \<Rightarrow>
             (case MakeImmutableBareRootMetadata latest latestID ts of
                Inl e \<Rightarrow> (Inl e, J1)
              | Inr im \<Rightarrow> (Inr (Some im), J1))))"

definition checkGetParams ::
  "env \<Rightarrow> UID \<Rightarrow> VerifyingKey \<Rightarrow> nat \<Rightarrow> mdJournal
     \<Rightarrow> (error + ImmutableBareRootMetadata option) \<times> mdJournal" where
  "checkGetParams E uid key extra J =
     (case getLatest E uid key True J of
        (Inl e, J1) \<Rightarrow> (Inl e, J1)
      | (Inr None, J1) \<Rightarrow> (Inr None, J1)
      | (Inr (Some head), J1) \<Rightarrow>
         (case isReader E uid (brmd head) extra of
            Inl e \<Rightarrow> (Inl e, J1)
          | Inr ok \<Rightarrow>
             if \<not> ok then (Inl MDServerErrorUnauthorized, J1)
             else (Inr (Some head), J1)))"

text \<open>
  \<^verbatim>\<open>os.Remove\<close> of a content file: an error when the call fails or the file is missing.
\<close>

definition os_Remove :: "env \<Rightarrow> MdID \<Rightarrow> mdJournal \<Rightarrow> error option \<times> mdJournal" where
  "os_Remove E i J =
     (if fault E (Remove i) then (Some ErrIO, J)
      else case mds J i of
        None \<Rightarrow> (Some ErrNotExist, J)
      | Some _ \<Rightarrow> (None, J\<lparr>mds := (mds J)(i := None)\<rparr>))"

text \<open>
  The deferred clean-up of \<^verbatim>\<open>convertToBranch\<close>: every MdID in \<^verbatim>\<open>mdsToRemove\<close> is
  removed, a failure is only logged. (Removing the scratch directory, logging and the
  eviction from the external MD cache leave the journal as it is and are not modelled.)
\<close>

fun removeMDs :: "env \<Rightarrow> MdID list \<Rightarrow> mdJournal \<Rightarrow> mdJournal" where
  "removeMDs E [] J = J"
| "removeMDs E (i # rest) J = removeMDs E rest (snd (os_Remove E i J))"

text \<open>
  The loop of \<^verbatim>\<open>convertToBranch\<close> over \<^verbatim>\<open>allMdIDs\<close>, with the index \<open>n\<close>, the scratch log,
  \<^verbatim>\<open>prevID\<close> and \<^verbatim>\<open>mdsToRemove\<close>. It stops at the first error. \<^verbatim>\<open>getMD\<close> always returns a
  \<^verbatim>\<open>BareRootMetadataV2\<close>, which has the setters, so the type assertion cannot fail.
\<close>

fun convertLoop ::
  "env \<Rightarrow> UID \<Rightarrow> VerifyingKey \<Rightarrow> BranchID \<Rightarrow> nat \<Rightarrow> MdID list \<Rightarrow> mdJournal
     \<Rightarrow> mdIDJournal \<Rightarrow> MdID \<Rightarrow> MdID list
     \<Rightarrow> error option \<times> mdJournal \<times> mdIDJournal \<times> MdID list" where
  "convertLoop E uid key bid n [] J tempJournal prevID mdsToRemove =
     (None, J, tempJournal, mdsToRemove)"
| "convertLoop E uid key bid n (i # rest) J tempJournal prevID mdsToRemove =
     (case getMD E uid key i True J of
        (Inl e, J1) \<Rightarrow> (Some e, J1, tempJournal, mdsToRemove)
      | (Inr (ibrmd, ts), J1) \<Rightarrow>
         (let b1 = SetBranchID bid (SetUnmerged ibrmd) in
          case GetSerializedWriterMetadata E b1 of
            Inl e \<Rightarrow> (Some e, J1, tempJournal, mdsToRemove)
          | Inr buf \<Rightarrow>
             (case Sign E buf of
                Inl e \<Rightarrow> (Some e, J1, tempJournal, mdsToRemove)
              | Inr sigInfo \<Rightarrow>
                 (let b2 = SetWriterMetadataSigInfo sigInfo b1;
                      b3 = (if n > 0 then SetPrevRoot prevID b2 else b2) in
                  case putMD E uid key b3 J1 of
                    (Inl e, J2) \<Rightarrow> (Some e, J2, tempJournal, mdsToRemove)
                  | (Inr newID, J2) \<Rightarrow>
                     (case j_append (fault E) tempJournal (Revision b3) newID of
                        Inl e \<Rightarrow> (Some e, J2, tempJournal, mdsToRemove @ [newID])
                      | Inr tempJournal' \<Rightarrow>
                         convertLoop E uid key bid (Suc n) rest J2 tempJournal' newID
                           (mdsToRemove @ [newID]))))))"

text \<open>
  \<^verbatim>\<open>convertToBranch\<close>. Every return after the scratch directory exists runs the deferred
  clean-up: of the new MdIDs written so far when a step fails, of the old MdIDs after the
  swap. The first \<^verbatim>\<open>move\<close> changes \<^verbatim>\<open>j.j\<close> in place, so a failure of the second one leaves
  the journal on the moved old log.
\<close>

definition convertToBranch ::
  "env \<Rightarrow> UID \<Rightarrow> VerifyingKey \<Rightarrow> mdJournal \<Rightarrow> (error + BranchID) \<times> mdJournal" where
  "convertToBranch E uid key J =
     (if branchID J \<noteq> NullBranchID then (Inl ErrConvertOnBranch, J)
      else case j_readEarliestRevision (fault E) (idJournal J) of
        Inl e \<Rightarrow> (Inl e, J)
      | Inr earliestRevision \<Rightarrow>
      (case j_readLatestRevision (fault E) (idJournal J) of
        Inl e \<Rightarrow> (Inl e, J)
      | Inr latestRevision \<Rightarrow>
      (case j_getRange (fault E) (idJournal J) earliestRevision latestRevision of
        Inl e \<Rightarrow> (Inl e, J)
      | Inr (realStart, allMdIDs) \<Rightarrow>
      (case MakeRandomBranchID E of
        Inl e \<Rightarrow> (Inl e, J)
      | Inr bid \<Rightarrow>
      (case TempDir E of
        Inl e \<Rightarrow> (Inl e, J)
      | Inr journalTempDir \<Rightarrow>
      (case convertLoop E uid key bid 0 allMdIDs J (makeMdIDJournal journalTempDir)
              zeroMdID [] of
        (Some e, J1, tempJournal, mdsToRemove) \<Rightarrow> (Inl e, removeMDs E mdsToRemove J1)
      | (None, J1, tempJournal, mdsToRemove) \<Rightarrow>
         (case j_move (fault E) (idJournal J1) (journalTempDir @ ''.old'') of
            Inl e \<Rightarrow> (Inl e, removeMDs E mdsToRemove J1)
          | Inr (d, movedOld) \<Rightarrow>
             (case j_move (fault E) tempJournal d of
                Inl e \<Rightarrow> (Inl e, removeMDs E mdsToRemove (J1\<lparr>idJournal := movedOld\<rparr>))
              | Inr (newJournalOldDir, movedNew) \<Rightarrow>
                 (Inr bid,
                  removeMDs E allMdIDs
                    (J1\<lparr>idJournal := movedNew, branchID := bid\<rparr>))))))))))"

text \<open>
  \<^verbatim>\<open>getNextEntryToFlush\<close> returns the zero MdID and no signed RMD when there is nothing
  to flush below \<open>end_rev\<close>. (The type assertion cannot fail, as in the loop above.)
  \<^verbatim>\<open>removeFlushedEntry\<close> ends with the result of removing the content file.
\<close>

definition getNextEntryToFlush ::
  "env \<Rightarrow> UID \<Rightarrow> VerifyingKey \<Rightarrow> MetadataRevision \<Rightarrow> mdJournal
     \<Rightarrow> (error + MdID \<times> RootMetadataSigned option) \<times> mdJournal" where
  "getNextEntryToFlush E uid key end_rev J =
     (case getEarliest E uid key True J of
        (Inl e, J1) \<Rightarrow> (Inl e, J1)
      | (Inr None, J1) \<Rightarrow> (Inr (zeroMdID, None), J1)
      | (Inr (Some rmd), J1) \<Rightarrow>
         if Revision (brmd rmd) \<ge> end_rev then (Inr (zeroMdID, None), J1)
         else (case signMD E (brmd rmd) of
            Inl e \<Rightarrow> (Inl e, J1)
          | Inr sig \<Rightarrow> (Inr (mdID rmd, Some \<lparr>MD = brmd rmd, SigInfo = sig\<rparr>), J1)))"

definition removeFlushedEntry ::
  "env \<Rightarrow> UID \<Rightarrow> VerifyingKey \<Rightarrow> MdID \<Rightarrow> RootMetadataSigned \<Rightarrow> mdJournal
     \<Rightarrow> error option \<times> mdJournal" where
  "removeFlushedEntry E uid key i rmds J =
     (case getEarliest E uid key True J of
        (Inl e, J1) \<Rightarrow> (Some e, J1)
      | (Inr None, J1) \<Rightarrow> (Some ErrJournalEmpty, J1)
      | (Inr (Some rmd), J1) \<Rightarrow>
         if i \<noteq> mdID rmd then (Some ErrUnexpectedMdID, J1)
         else (case CodecEqual E (brmd rmd) (MD rmds) of
            Inl e \<Rightarrow> (Some e, J1)
          | Inr eq \<Rightarrow>
             if \<not> eq then (Some ErrNotEarliest, J1)
             else (case j_removeEarliest (fault E) (idJournal J1) of
                Inl e \<Rightarrow> (Some e, J1)
              | Inr (nowEmpty, l) \<Rightarrow>
                 (let J2 = J1\<lparr>idJournal := l\<rparr>;
                      J3 = (if nowEmpty then J2\<lparr>lastMdID := i\<rparr> else J2)
                  in os_Remove E i J3))))"

text \<open>
  The readers that delegate to the ordinal log, and \<^verbatim>\<open>getBranchID\<close>.
\<close>

definition readEarliestRevision ::
  "env \<Rightarrow> mdJournal \<Rightarrow> (error + MetadataRevision) \<times> mdJournal" where
  "readEarliestRevision E J = (j_readEarliestRevision (fault E) (idJournal J), J)"

definition readLatestRevision ::
  "env \<Rightarrow> mdJournal \<Rightarrow> (error + MetadataRevision) \<times> mdJournal" where
  "readLatestRevision E J = (j_readLatestRevision (fault E) (idJournal J), J)"

definition length_md :: "env \<Rightarrow> mdJournal \<Rightarrow> (error + nat) \<times> mdJournal" where
  "length_md E J = (j_length (fault E) (idJournal J), J)"

definition end_md :: "env \<Rightarrow> mdJournal \<Rightarrow> (error + MetadataRevision) \<times> mdJournal" where
  "end_md E J = (j_end (fault E) (idJournal J), J)"

definition getBranchID :: "mdJournal \<Rightarrow> BranchID \<times> mdJournal" where
  "getBranchID J = (branchID J, J)"

definition getHead ::
  "env \<Rightarrow> UID \<Rightarrow> VerifyingKey \<Rightarrow> nat \<Rightarrow> mdJournal
     \<Rightarrow> (error + ImmutableBareRootMetadata option) \<times> mdJournal" where
  "getHead E uid key extra J = checkGetParams E uid key extra J"

text \<open>
  The loop of \<^verbatim>\<open>getRange\<close>: entry \<open>n\<close> must carry revision \<open>realStart + n\<close>, or the code
  panics.
\<close>

fun getRangeLoop ::
  "env \<Rightarrow> UID \<Rightarrow> VerifyingKey \<Rightarrow> MetadataRevision \<Rightarrow> nat \<Rightarrow> MdID list \<Rightarrow> mdJournal
     \<Rightarrow> ImmutableBareRootMetadata list
     \<Rightarrow> (error + ImmutableBareRootMetadata list) \<times> mdJournal" where
  "getRangeLoop E uid key realStart n [] J rmds = (Inr rmds, J)"
| "getRangeLoop E uid key realStart n (i # rest) J rmds =
     (case getMD E uid key i True J of
        (Inl e, J1) \<Rightarrow> (Inl e, J1)
      | (Inr (rmd, ts), J1) \<Rightarrow>
         if realStart + int n \<noteq> Revision rmd then (Inl ErrPanic, J1)
         else (case MakeImmutableBareRootMetadata rmd i ts of
            Inl e \<Rightarrow> (Inl e, J1)
          | Inr irmd \<Rightarrow> getRangeLoop E uid key realStart (Suc n) rest J1 (rmds @ [irmd])))"

definition getRange ::
  "env \<Rightarrow> UID \<Rightarrow> VerifyingKey \<Rightarrow> nat \<Rightarrow> MetadataRevision \<Rightarrow> MetadataRevision \<Rightarrow> mdJournal
     \<Rightarrow> (error + ImmutableBareRootMetadata list) \<times> mdJournal" where
  "getRange E uid key extra start stop J =
     (case checkGetParams E uid key extra J of
        (Inl e, J1) \<Rightarrow> (Inl e, J1)
      | (Inr head, J1) \<Rightarrow>
         (case j_getRange (fault E) (idJournal J1) start stop of
            Inl e \<Rightarrow> (Inl e, J1)
          | Inr (realStart, mdIDs) \<Rightarrow> getRangeLoop E uid key realStart 0 mdIDs J1 []))"

text \<open>
  \<^verbatim>\<open>put\<close>. The check against the head: writer permission, and the successor predicate
  when the revisions differ.
\<close>

definition checkHead ::
  "env \<Rightarrow> UID \<Rightarrow> ImmutableBareRootMetadata option \<Rightarrow> RootMetadata \<Rightarrow> error option" where
  "checkHead E uid head rmd =
     (case head of
        None \<Rightarrow> None
      | Some h \<Rightarrow>
         (case isWriterOrValidRekey E uid (brmd h) (bareMd rmd) of
            Inl e \<Rightarrow> Some e
          | Inr ok \<Rightarrow>
             if \<not> ok then Some MDServerErrorUnauthorized
             else if Revision (bareMd rmd) \<noteq> Revision (brmd h)
             then CheckValidSuccessorForServer E (brmd h) (mdID h) (bareMd rmd)
             else None))"

text \<open>
  The part of \<^verbatim>\<open>put\<close> that its comment calls common to all the cases, from the check
  of the merge status against the branch ID to the update of the ordinal log.
\<close>

definition put_common ::
  "env \<Rightarrow> UID \<Rightarrow> VerifyingKey \<Rightarrow> ImmutableBareRootMetadata option \<Rightarrow> MergeStatus
     \<Rightarrow> RootMetadata \<Rightarrow> mdJournal \<Rightarrow> (error + MdID) \<times> mdJournal" where
  "put_common E uid key head mStatus rmd J =
     (if (mStatus = Merged) \<noteq> (BID (bareMd rmd) = NullBranchID) then (Inl ErrMStatusBID, J)
      else if mStatus = Merged \<and> branchID J \<noteq> NullBranchID
      then (Inl MDJournalConflictError, J)
      else if BID (bareMd rmd) \<noteq> branchID J then (Inl ErrBranchIDMismatch, J)
      else case checkHead E uid head rmd of
        Some e \<Rightarrow> (Inl e, J)
      | None \<Rightarrow>
         if ChangesPtrIsZero rmd \<and> \<not> ShouldEmbedBlockChanges E (Changes rmd)
         then (Inl ErrEmbeddedBlockChanges, J)
         else (case encryptMDPrivateData E uid rmd of
            Inl e \<Rightarrow> (Inl e, J)
          | Inr b \<Rightarrow>
             (case putMD E uid key b J of
                (Inl e, J1) \<Rightarrow> (Inl e, J1)
              | (Inr i, J1) \<Rightarrow>
                 (case (if (case head of None \<Rightarrow> False
                                 | Some h \<Rightarrow> Revision (bareMd rmd) = Revision (brmd h))
                        then j_replaceHead (fault E) (idJournal J1) i
                        else j_append (fault E) (idJournal J1) (Revision b) i) of
                    Inl e \<Rightarrow> (Inl e, J1)
                  | Inr l \<Rightarrow> (Inr i, J1\<lparr>idJournal := l, lastMdID := zeroMdID\<rparr>)))))"

text \<open>
  \<^verbatim>\<open>put\<close> changes the RMD it is given in place (case Unmerged-1), so the model returns
  the RMD as well. In case Unmerged-3 the branch ID is adopted first and reverted by the
  deferred function when the call fails.
\<close>

definition put ::
  "env \<Rightarrow> UID \<Rightarrow> VerifyingKey \<Rightarrow> RootMetadata \<Rightarrow> mdJournal
     \<Rightarrow> (error + MdID) \<times> mdJournal \<times> RootMetadata" where
  "put E uid key rmd J =
     (case getLatest E uid key True J of
        (Inl e, J1) \<Rightarrow> (Inl e, J1, rmd)
      | (Inr head, J1) \<Rightarrow>
         (let mStatus = MergedStatus (bareMd rmd) in
          if mStatus = Unmerged then
            (let lastID = (case head of None \<Rightarrow> lastMdID J1 | Some h \<Rightarrow> mdID h) in
             if BID (bareMd rmd) = NullBranchID \<and> branchID J1 = NullBranchID
             then (Inl ErrUnmergedNullBID, J1, rmd)
             else if head = None \<and> branchID J1 = NullBranchID then
               (case put_common E uid key head mStatus rmd (J1\<lparr>branchID := BID (bareMd rmd)\<rparr>) of
                  (Inl e, J2) \<Rightarrow> (Inl e, J2\<lparr>branchID := NullBranchID\<rparr>, rmd)
                | (Inr i, J2) \<Rightarrow> (Inr i, J2, rmd))
             else if BID (bareMd rmd) = NullBranchID then
               (let rmd1 = rmd\<lparr>bareMd :=
                             SetPrevRoot lastID (SetBranchID (branchID J1) (bareMd rmd))\<rparr> in
                case put_common E uid key head mStatus rmd1 J1 of
                  (r, J2) \<Rightarrow> (r, J2, rmd1))
             else
               (case put_common E uid key head mStatus rmd J1 of
                  (r, J2) \<Rightarrow> (r, J2, rmd)))
          else
            (case put_common E uid key head mStatus rmd J1 of
               (r, J2) \<Rightarrow> (r, J2, rmd))))"

text \<open>
  \<^verbatim>\<open>clear\<close>. The loop removes the content files and stops at the first failure. When
  \<^verbatim>\<open>j.j.clear()\<close> fails the Go code returns \<^verbatim>\<open>nil\<close>.
\<close>

fun clearLoop :: "env \<Rightarrow> MdID list \<Rightarrow> mdJournal \<Rightarrow> error option \<times> mdJournal" where
  "clearLoop E [] J = (None, J)"
| "clearLoop E (i # rest) J =
     (case os_Remove E i J of
        (Some e, J1) \<Rightarrow> (Some e, J1)
      | (None, J1) \<Rightarrow> clearLoop E rest J1)"

definition clear ::
  "env \<Rightarrow> UID \<Rightarrow> VerifyingKey \<Rightarrow> BranchID \<Rightarrow> nat \<Rightarrow> mdJournal
     \<Rightarrow> error option \<times> mdJournal" where
  "clear E uid key bid extra J =
     (if bid = NullBranchID then (Some ErrClearMaster, J)
      else case getHead E uid key extra J of
        (Inl e, J1) \<Rightarrow> (Some e, J1)
      | (Inr None, J1) \<Rightarrow> (None, J1)
      | (Inr (Some head), J1) \<Rightarrow>
         if BID (brmd head) \<noteq> bid then (None, J1)
         else (case j_readEarliestRevision (fault E) (idJournal J1) of
            Inl e \<Rightarrow> (Some e, J1)
          | Inr earliestRevision \<Rightarrow>
          (case j_readLatestRevision (fault E) (idJournal J1) of
            Inl e \<Rightarrow> (Some e, J1)
          | Inr latestRevision \<Rightarrow>
          (case j_getRange (fault E) (idJournal J1) earliestRevision latestRevision of
            Inl e \<Rightarrow> (Some e, J1)
          | Inr (realStart, allMdIDs) \<Rightarrow>
             (let J2 = J1\<lparr>branchID := NullBranchID\<rparr> in
              case j_clear (fault E) (idJournal J2) of
                Inl e \<Rightarrow> (None, J2)
              | Inr l \<Rightarrow> clearLoop E allMdIDs (J2\<lparr>idJournal := l\<rparr>))))))"

section \<open>A sample environment and sample journals\<close>

text \<open>
  A concrete environment for evaluating the model: an injective codec, the encoding as
  the MdID, collaborators that accept everything, a successor check that wants the next
  revision chained to the head, and no failing filesystem call.
\<close>

definition sampleEncode :: "BareRootMetadata \<Rightarrow> bytes" where
  "sampleEncode r =
     [nat \<bar>Revision r\<bar>, (if Revision r < 0 then 1 else 0), BID r,
      (if UnmergedFlag r then 1 else 0), WriterMetadataSigInfo r, Rest r] @ PrevRoot r"

definition sampleDecode :: "bytes \<Rightarrow> error + BareRootMetadata" where
  "sampleDecode buf =
     (case buf of
        a # s # b # f # w # x # p \<Rightarrow>
          Inr \<lparr>Revision = (if s = 1 then - int a else int a), BID = b, PrevRoot = p,
               UnmergedFlag = (f = 1), WriterMetadataSigInfo = w, Rest = x\<rparr>
      | _ \<Rightarrow> Inl (ErrExternal 0))"

definition sampleEnv :: env where
  "sampleEnv =
     \<lparr>Encode = (\<lambda>r. Inr (sampleEncode r)),
      Decode = sampleDecode,
      CodecEqual = (\<lambda>a b. Inr (sampleEncode a = sampleEncode b)),
      MakeMdID = (\<lambda>r. Inr (sampleEncode r)),
      MakeRandomBranchID = Inr 7,
      IsLastModifiedBy = (\<lambda>r u k. None),
      IsValidAndSigned = (\<lambda>r. None),
      isReader = (\<lambda>u r x. Inr True),
      isWriterOrValidRekey = (\<lambda>u h r. Inr True),
      CheckValidSuccessorForServer =
        (\<lambda>h i r. if Revision r = Revision h + 1 \<and> PrevRoot r = i then None
                 else Some (ErrExternal 1)),
      ShouldEmbedBlockChanges = (\<lambda>c. True),
      encryptMDPrivateData = (\<lambda>u r. Inr (bareMd r)),
      GetSerializedWriterMetadata = (\<lambda>r. Inr (sampleEncode r)),
      Sign = (\<lambda>b. Inr 1),
      signMD = (\<lambda>r. Inr 1),
      TempDir = Inr ''md_journal123'',
      fault = (\<lambda>op. False),
      now = 100\<rparr>"

text \<open>
  The sample environment with a failing truncation of the ordinal log, and with a user
  who is not a reader.
\<close>

definition clearFailsEnv :: env where
  "clearFailsEnv = sampleEnv\<lparr>fault := (\<lambda>op. op = OpClear)\<rparr>"

definition notReaderEnv :: env where
  "notReaderEnv = sampleEnv\<lparr>isReader := (\<lambda>u r x. Inr False)\<rparr>"

definition mkBare ::
  "MetadataRevision \<Rightarrow> BranchID \<Rightarrow> MdID \<Rightarrow> bool \<Rightarrow> nat \<Rightarrow> BareRootMetadata" where
  "mkBare r b p u s =
     \<lparr>Revision = r, BID = b, PrevRoot = p, UnmergedFlag = u,
      WriterMetadataSigInfo = s, Rest = 0\<rparr>"

definition mkRMD :: "MetadataRevision \<Rightarrow> BranchID \<Rightarrow> MdID \<Rightarrow> bool \<Rightarrow> RootMetadata" where
  "mkRMD r b p u = \<lparr>bareMd = mkBare r b p u 0, ChangesPtrIsZero = False, Changes = 0\<rparr>"

text \<open>
  The journal on branch \<open>b\<close> whose log starts at revision \<open>r\<close> and holds the given RMDs,
  each stored under its MdID.
\<close>

definition journalOf :: "BranchID \<Rightarrow> MetadataRevision \<Rightarrow> BareRootMetadata list \<Rightarrow> mdJournal" where
  "journalOf b r rs =
     \<lparr>idJournal = \<lparr>dir = ''md_journal'', first = r, ids = map sampleEncode rs\<rparr>,
      mds = map_of (map (\<lambda>x. (sampleEncode x, (sampleEncode x, 100))) rs),
      branchID = b, lastMdID = zeroMdID\<rparr>"

section \<open>Notions used in the statements\<close>

text \<open>
  The RMD stored under an MdID: what the content file decodes to, if it exists and
  decodes.
\<close>

definition storedMD :: "env \<Rightarrow> mdJournal \<Rightarrow> MdID \<Rightarrow> BareRootMetadata option" where
  "storedMD E J i =
     (case mds J i of
        None \<Rightarrow> None
      | Some (buf, t) \<Rightarrow> (case Decode E buf of Inl e \<Rightarrow> None | Inr r \<Rightarrow> Some r))"

text \<open>
  A list of MdIDs forms a chain on branch \<open>b\<close>: every MdID has a stored RMD of which it
  is the MdID, that RMD is unmerged and on branch \<open>b\<close>, and its \<open>PrevRoot\<close> is the MdID
  before it in the list (\<open>prev\<close> for the first, when given).
\<close>

fun chained :: "env \<Rightarrow> mdJournal \<Rightarrow> BranchID \<Rightarrow> MdID option \<Rightarrow> MdID list \<Rightarrow> bool" where
  "chained E J b prev [] = True"
| "chained E J b prev (i # rest) =
     (case storedMD E J i of
        None \<Rightarrow> False
      | Some r \<Rightarrow>
          MakeMdID E r = Inr i \<and> BID r = b \<and> UnmergedFlag r \<and>
          (case prev of None \<Rightarrow> True | Some p \<Rightarrow> PrevRoot r = p) \<and>
          chained E J b (Some i) rest)"

text \<open>
  What the journal relies on from its collaborators: decoding inverts encoding, and two
  RMDs with the same MdID are equal.
\<close>

definition codec_ok :: "env \<Rightarrow> bool" where
  "codec_ok E = (\<forall>r buf. Encode E r = Inr buf \<longrightarrow> Decode E buf = Inr r)"

definition mdid_inj :: "env \<Rightarrow> bool" where
  "mdid_inj E = (\<forall>a b i. MakeMdID E a = Inr i \<longrightarrow> MakeMdID E b = Inr i \<longrightarrow> a = b)"

section \<open>Reading does not change the journal\<close>

lemmas sample_defs = sampleEnv_def sampleEncode_def sampleDecode_def mkBare_def mkRMD_def
  journalOf_def makeMdIDJournal_def

lemmas eval_defs = put_def put_common_def checkHead_def putMD_def getLatest_def getEarliest_def
  getMD_def j_getLatest_def j_getEarliest_def j_append_def j_replaceHead_def MergedStatus_def
  SetBranchID_def SetPrevRoot_def SetUnmerged_def SetWriterMetadataSigInfo_def
  MakeImmutableBareRootMetadata_def

lemma getMD_frame: "snd (getMD E uid key i v J) = J"
  by (simp add: getMD_def split: option.splits sum.splits prod.splits)

lemma getMD_frameD: "getMD E uid key i v J = (r, J') \<Longrightarrow> J' = J"
  using getMD_frame [of E uid key i v J] by simp

lemma getEarliest_frame: "snd (getEarliest E uid key v J) = J"
  by (auto simp: getEarliest_def dest: getMD_frameD split: option.splits sum.splits prod.splits)

lemma getEarliest_frameD: "getEarliest E uid key v J = (r, J') \<Longrightarrow> J' = J"
  using getEarliest_frame [of E uid key v J] by simp

lemma getLatest_frame: "snd (getLatest E uid key v J) = J"
  by (auto simp: getLatest_def dest: getMD_frameD split: option.splits sum.splits prod.splits)

lemma getLatest_frameD: "getLatest E uid key v J = (r, J') \<Longrightarrow> J' = J"
  using getLatest_frame [of E uid key v J] by simp

lemma checkGetParams_frame: "snd (checkGetParams E uid key extra J) = J"
  by (auto simp: checkGetParams_def dest: getLatest_frameD
      split: option.splits sum.splits prod.splits)

lemma checkGetParams_frameD: "checkGetParams E uid key extra J = (r, J') \<Longrightarrow> J' = J"
  using checkGetParams_frame [of E uid key extra J] by simp

lemma getRangeLoop_frame: "snd (getRangeLoop E uid key realStart n is J acc) = J"
  by (induction "is" arbitrary: n acc)
     (auto dest: getMD_frameD split: option.splits sum.splits prod.splits)

lemma getRange_frame: "snd (getRange E uid key extra start stop J) = J"
  by (auto simp: getRange_def getRangeLoop_frame dest: checkGetParams_frameD
      split: option.splits sum.splits prod.splits)

lemma getNextEntryToFlush_frame: "snd (getNextEntryToFlush E uid key e J) = J"
  by (auto simp: getNextEntryToFlush_def dest: getEarliest_frameD
      split: option.splits sum.splits prod.splits)

text \<open>
  Claim C10. The read operations \<^verbatim>\<open>getHead\<close>, \<^verbatim>\<open>getRange\<close>, \<^verbatim>\<open>getNextEntryToFlush\<close>,
  \<^verbatim>\<open>length\<close>, \<^verbatim>\<open>end\<close> and \<^verbatim>\<open>getBranchID\<close> leave the journal as it was (branch ID, last
  MdID, ordinal log and content store), whether they succeed or fail.
\<close>

theorem reads_leave_journal_unchanged:
  "snd (getHead E uid key extra J) = J \<and>
   snd (getRange E uid key extra start stop J) = J \<and>
   snd (getNextEntryToFlush E uid key e J) = J \<and>
   snd (length_md E J) = J \<and>
   snd (end_md E J) = J \<and>
   snd (getBranchID J) = J"
  by (simp add: getHead_def checkGetParams_frame getRange_frame getNextEntryToFlush_frame
      length_md_def end_md_def getBranchID_def)

theorem reads_leave_journal_unchanged_witness:
  "snd (getHead sampleEnv 1 1 0 (journalOf 7 1 [mkBare 1 7 [] True 1])) =
     journalOf 7 1 [mkBare 1 7 [] True 1] \<and>
   snd (getRange sampleEnv 1 1 0 0 5 (journalOf 7 1 [mkBare 1 7 [] True 1])) =
     journalOf 7 1 [mkBare 1 7 [] True 1] \<and>
   snd (getNextEntryToFlush sampleEnv 1 1 5 (journalOf 7 1 [mkBare 1 7 [] True 1])) =
     journalOf 7 1 [mkBare 1 7 [] True 1] \<and>
   snd (length_md sampleEnv (journalOf 7 1 [mkBare 1 7 [] True 1])) =
     journalOf 7 1 [mkBare 1 7 [] True 1] \<and>
   snd (end_md sampleEnv (journalOf 7 1 [mkBare 1 7 [] True 1])) =
     journalOf 7 1 [mkBare 1 7 [] True 1] \<and>
   snd (getBranchID (journalOf 7 1 [mkBare 1 7 [] True 1])) =
     journalOf 7 1 [mkBare 1 7 [] True 1]"
  by (rule reads_leave_journal_unchanged)

section \<open>Branch conversion is not re-entrant\<close>

text \<open>
  Claim C6. On a journal whose branch ID is not the null branch ID, \<^verbatim>\<open>convertToBranch\<close>
  returns an error and leaves the journal unchanged.
\<close>

theorem convertToBranch_not_reentrant:
  "branchID J \<noteq> NullBranchID \<Longrightarrow> convertToBranch E uid key J = (Inl ErrConvertOnBranch, J)"
  by (simp add: convertToBranch_def)

theorem convertToBranch_not_reentrant_witness:
  "branchID (journalOf 7 1 [mkBare 1 7 [] True 1]) \<noteq> NullBranchID \<and>
   convertToBranch sampleEnv 1 1 (journalOf 7 1 [mkBare 1 7 [] True 1]) =
     (Inl ErrConvertOnBranch, journalOf 7 1 [mkBare 1 7 [] True 1])"
proof -
  have h: "branchID (journalOf 7 1 [mkBare 1 7 [] True 1]) \<noteq> NullBranchID"
    by (simp add: journalOf_def)
  show ?thesis
    by (rule conjI [OF h convertToBranch_not_reentrant [OF h]])
qed

section \<open>Storing the same metadata twice\<close>

text \<open>
  Claim C2 says that the second \<^verbatim>\<open>putMD\<close> of the same RMD returns the MdID the first one
  returned. The code returns the zero MdID when the entry exists: on the empty journal,
  the first call for the RMD of revision 1 stores the file and returns its MdID, the
  second call leaves the store as it is and returns \<^verbatim>\<open>MdID{}\<close>.
\<close>

theorem putMD_second_call_returns_zero_MdID:
  "fst (putMD sampleEnv 1 1 (mkBare 1 0 [] False 0) (journalOf 0 1 [])) =
     Inr [1, 0, 0, 0, 0, 0] \<and>
   fst (putMD sampleEnv 1 1 (mkBare 1 0 [] False 0)
          (snd (putMD sampleEnv 1 1 (mkBare 1 0 [] False 0) (journalOf 0 1 [])))) =
     Inr zeroMdID \<and>
   snd (putMD sampleEnv 1 1 (mkBare 1 0 [] False 0)
          (snd (putMD sampleEnv 1 1 (mkBare 1 0 [] False 0) (journalOf 0 1 [])))) =
     snd (putMD sampleEnv 1 1 (mkBare 1 0 [] False 0) (journalOf 0 1 []))"
  by (simp add: putMD_def getMD_def sample_defs)

section \<open>A failing truncation inside clear\<close>

text \<open>
  Claim C9 says that \<^verbatim>\<open>clear\<close> returns the I/O error of a failing truncation of the
  ordinal log. The code returns \<^verbatim>\<open>nil\<close>: on the journal of branch 7 with one entry, with
  a failing \<^verbatim>\<open>j.j.clear()\<close>, \<^verbatim>\<open>clear\<close> reports success, the branch ID is reset and the log
  still holds the entry.
\<close>

theorem clear_reports_success_when_truncation_fails:
  "j_clear (fault clearFailsEnv) (idJournal (journalOf 7 1 [mkBare 1 7 [] True 1])) =
     Inl ErrIO \<and>
   clear clearFailsEnv 1 1 7 0 (journalOf 7 1 [mkBare 1 7 [] True 1]) =
     (None, journalOf 0 1 [mkBare 1 7 [] True 1])"
  by (simp add: clearFailsEnv_def clear_def getHead_def checkGetParams_def getLatest_def getMD_def j_getLatest_def
      j_readEarliestRevision_def j_readLatestRevision_def j_getRange_def j_clear_def
      MakeImmutableBareRootMetadata_def sample_defs)

section \<open>A merged put on a branched journal\<close>

text \<open>
  Claim C3, as amended. On a journal whose branch ID is not the null branch ID, \<^verbatim>\<open>put\<close> of
  an RMD with merged status always fails and leaves the journal and the RMD unchanged.
  The error is \<^verbatim>\<open>MDJournalConflictError\<close> when the head can be read and the RMD's branch
  ID is the null branch ID; it is the error of reading the head when that fails, and the
  status/branch-ID mismatch error when the RMD carries a branch ID.
\<close>

theorem put_merged_on_branch:
  assumes "branchID J \<noteq> NullBranchID" and "MergedStatus (bareMd rmd) = Merged"
  shows "put E uid key rmd J =
           (Inl (case fst (getLatest E uid key True J) of
                   Inl e \<Rightarrow> e
                 | Inr head \<Rightarrow>
                     if BID (bareMd rmd) = NullBranchID then MDJournalConflictError
                     else ErrMStatusBID),
            J, rmd)"
proof (cases "getLatest E uid key True J")
  case (Pair r J1)
  then have J1: "J1 = J" by (rule getLatest_frameD)
  show ?thesis
    using assms Pair unfolding J1
    by (cases r) (simp_all add: put_def put_common_def)
qed

theorem put_merged_on_branch_witness:
  "branchID (journalOf 7 1 [mkBare 1 7 [] True 1]) \<noteq> NullBranchID \<and>
   MergedStatus (bareMd (mkRMD 2 0 [] False)) = Merged \<and>
   put sampleEnv 1 1 (mkRMD 2 0 [] False) (journalOf 7 1 [mkBare 1 7 [] True 1]) =
     (Inl MDJournalConflictError, journalOf 7 1 [mkBare 1 7 [] True 1], mkRMD 2 0 [] False)"
proof -
  have h1: "branchID (journalOf 7 1 [mkBare 1 7 [] True 1]) \<noteq> NullBranchID"
    by (simp add: journalOf_def)
  have h2: "MergedStatus (bareMd (mkRMD 2 0 [] False)) = Merged"
    by (simp add: MergedStatus_def mkRMD_def mkBare_def)
  have h3: "fst (getLatest sampleEnv 1 1 True (journalOf 7 1 [mkBare 1 7 [] True 1])) =
     Inr (Some \<lparr>brmd = mkBare 1 7 [] True 1, mdID = [1, 0, 7, 1, 1, 0],
                localTimestamp = 100\<rparr>)"
    by (simp add: getLatest_def getMD_def j_getLatest_def MakeImmutableBareRootMetadata_def
        sample_defs)
  have h4: "BID (bareMd (mkRMD 2 0 [] False)) = NullBranchID"
    by (simp add: mkRMD_def mkBare_def)
  have "put sampleEnv 1 1 (mkRMD 2 0 [] False) (journalOf 7 1 [mkBare 1 7 [] True 1]) =
     (Inl MDJournalConflictError, journalOf 7 1 [mkBare 1 7 [] True 1], mkRMD 2 0 [] False)"
    using put_merged_on_branch [OF h1 h2, of sampleEnv 1 1] unfolding h3 h4 by simp
  with h1 h2 show ?thesis by blast
qed

text \<open>
  The claim as stated fails for a merged RMD that carries branch ID 7, put on the journal
  of branch 7: the check of the merge status against the branch ID comes first.
\<close>

theorem put_merged_on_branch_counterexample:
  "branchID (journalOf 7 1 [mkBare 1 7 [] True 1]) \<noteq> NullBranchID \<and>
   MergedStatus (bareMd (mkRMD 2 7 [1, 0, 7, 1, 1, 0] False)) = Merged \<and>
   fst (put sampleEnv 1 1 (mkRMD 2 7 [1, 0, 7, 1, 1, 0] False)
          (journalOf 7 1 [mkBare 1 7 [] True 1])) = Inl ErrMStatusBID \<and>
   fst (put sampleEnv 1 1 (mkRMD 2 7 [1, 0, 7, 1, 1, 0] False)
          (journalOf 7 1 [mkBare 1 7 [] True 1])) \<noteq> Inl MDJournalConflictError"
  by (simp add: put_def put_common_def MergedStatus_def getLatest_def getMD_def j_getLatest_def
      MakeImmutableBareRootMetadata_def sample_defs)

section \<open>What a successful read tells\<close>

lemma getMD_InrD:
  assumes "getMD E uid key i v J = (Inr (r, ts), J')"
  shows "\<exists>buf. mds J i = Some (buf, ts) \<and> Decode E buf = Inr r"
    and "MakeMdID E r = Inr i"
    and "IsLastModifiedBy E r uid key = None"
    and "IsValidAndSigned E r = None"
    and "v \<Longrightarrow> BID r = branchID J"
  using assms
  by (auto simp: getMD_def split: option.splits sum.splits prod.splits if_splits)

lemma getLatest_SomeD:
  assumes "getLatest E uid key v J = (Inr (Some h), J')"
  shows "ids (idJournal J) \<noteq> []" and "mdID h = last (ids (idJournal J))"
    and "mdID h \<noteq> zeroMdID"
    and "getMD E uid key (mdID h) v J = (Inr (brmd h, localTimestamp h), J)"
  using assms
  by (auto simp: getLatest_def j_getLatest_def MakeImmutableBareRootMetadata_def
      dest: getMD_frameD split: option.splits sum.splits prod.splits if_splits)

lemma getLatest_NoneD:
  assumes "getLatest E uid key v J = (Inr None, J')"
  shows "ids (idJournal J) = [] \<or> last (ids (idJournal J)) = zeroMdID"
  using assms
  by (auto simp: getLatest_def j_getLatest_def MakeImmutableBareRootMetadata_def
      split: option.splits sum.splits prod.splits if_splits)

lemma getLatest_empty:
  "ids (idJournal J) = [] \<Longrightarrow>
   getLatest E uid key v J = (if fault E OpGetLatest then Inl ErrIO else Inr None, J)"
  by (simp add: getLatest_def j_getLatest_def)

lemma getEarliest_SomeD:
  assumes "getEarliest E uid key v J = (Inr (Some h), J')"
  shows "\<exists>rest. ids (idJournal J) = mdID h # rest"
    and "mdID h \<noteq> zeroMdID"
    and "getMD E uid key (mdID h) v J = (Inr (brmd h, localTimestamp h), J)"
  using assms
  by (auto simp: getEarliest_def j_getEarliest_def MakeImmutableBareRootMetadata_def
      dest: getMD_frameD split: option.splits sum.splits prod.splits if_splits list.splits)

lemma entries_Cons:
  assumes "ids l = e # rest"
  shows "entries l = (first l, e) # entries (l\<lparr>first := first l + 1, ids := rest\<rparr>)"
proof -
  have "[0..<Suc (length rest)] = 0 # map Suc [0..<length rest]"
    by (simp add: upt_conv_Cons map_Suc_upt del: upt_Suc)
  then show ?thesis
    using assms by (simp add: entries_def comp_def add.assoc del: upt_Suc)
qed

lemma length_entries: "length (entries l) = length (ids l)"
  by (simp add: entries_def)

lemma checkGetParams_SomeD:
  assumes "checkGetParams E uid key extra J = (Inr (Some h), J')"
  shows "getLatest E uid key True J = (Inr (Some h), J)"
  using assms
  by (auto simp: checkGetParams_def dest: getLatest_frameD
      split: option.splits sum.splits prod.splits if_splits)

lemma checkGetParams_empty:
  "ids (idJournal J) = [] \<Longrightarrow>
   checkGetParams E uid key extra J = (if fault E OpGetLatest then Inl ErrIO else Inr None, J)"
  by (simp add: checkGetParams_def getLatest_empty)

section \<open>Removing a flushed entry\<close>

text \<open>
  Claim C7. When \<^verbatim>\<open>removeFlushedEntry(mdID, rmds)\<close> succeeds, the journal was non-empty,
  \<^verbatim>\<open>mdID\<close> is the MdID of its earliest entry, and \<^verbatim>\<open>rmds.MD\<close> is codec-equal to the RMD
  stored under it; afterwards the earliest entry is gone from the ordinal log, whose
  length is one less, and when the log is now empty \<^verbatim>\<open>lastMdID\<close> is \<^verbatim>\<open>mdID\<close> (otherwise
  it is unchanged).
\<close>

theorem removeFlushedEntry_success:
  assumes "removeFlushedEntry E uid key i rmds J = (None, J')"
  shows "\<exists>rest r ts.
           ids (idJournal J) = i # rest \<and>
           fst (getMD E uid key i True J) = Inr (r, ts) \<and>
           CodecEqual E r (MD rmds) = Inr True \<and>
           entries (idJournal J') = tl (entries (idJournal J)) \<and>
           length (ids (idJournal J')) + 1 = length (ids (idJournal J)) \<and>
           lastMdID J' = (if ids (idJournal J') = [] then i else lastMdID J) \<and>
           branchID J' = branchID J"
proof (cases "getEarliest E uid key True J")
  case (Pair res J1)
  then have J1: "J1 = J" by (rule getEarliest_frameD)
  from assms Pair obtain h where res: "res = Inr (Some h)"
    by (auto simp: removeFlushedEntry_def split: sum.splits option.splits)
  from Pair res J1 have ge: "getEarliest E uid key True J = (Inr (Some h), J)" by simp
  from getEarliest_SomeD(1) [OF ge] obtain rest where rest: "ids (idJournal J) = mdID h # rest" ..
  note gm = getEarliest_SomeD(3) [OF ge]
  from assms ge have i: "i = mdID h"
    by (auto simp: removeFlushedEntry_def split: if_splits)
  from assms ge i have eq: "CodecEqual E (brmd h) (MD rmds) = Inr True"
    by (auto simp: removeFlushedEntry_def split: if_splits sum.splits)
  from assms ge i eq rest have rm: "\<not> fault E OpRemoveEarliest"
    by (auto simp: removeFlushedEntry_def j_removeEarliest_def split: if_splits)
  let ?l = "(idJournal J)\<lparr>first := first (idJournal J) + 1, ids := rest\<rparr>"
  let ?J3 = "if rest = [] then J\<lparr>idJournal := ?l, lastMdID := i\<rparr> else J\<lparr>idJournal := ?l\<rparr>"
  from assms ge i eq rest rm have os: "os_Remove E i ?J3 = (None, J')"
    by (cases "rest = []") (simp_all add: removeFlushedEntry_def j_removeEarliest_def Let_def)
  then have J': "J' = ?J3\<lparr>mds := (mds ?J3)(i := None)\<rparr>"
    by (auto simp: os_Remove_def split: if_splits option.splits)
  have "entries (idJournal J') = tl (entries (idJournal J))"
    using entries_Cons [OF rest] by (simp add: J')
  moreover have "length (ids (idJournal J')) + 1 = length (ids (idJournal J))"
    by (simp add: J' rest)
  moreover have "lastMdID J' = (if ids (idJournal J') = [] then i else lastMdID J)"
    by (simp add: J')
  moreover have "branchID J' = branchID J" by (simp add: J')
  ultimately show ?thesis using rest i eq gm by auto
qed

theorem removeFlushedEntry_success_witness:
  "fst (removeFlushedEntry sampleEnv 1 1 [1, 0, 7, 1, 1, 0]
          \<lparr>MD = mkBare 1 7 [] True 1, SigInfo = 1\<rparr> (journalOf 7 1 [mkBare 1 7 [] True 1])) = None \<and>
   (\<exists>rest r ts.
      ids (idJournal (journalOf 7 1 [mkBare 1 7 [] True 1])) = [1, 0, 7, 1, 1, 0] # rest \<and>
      fst (getMD sampleEnv 1 1 [1, 0, 7, 1, 1, 0] True (journalOf 7 1 [mkBare 1 7 [] True 1])) =
        Inr (r, ts) \<and>
      CodecEqual sampleEnv r (MD \<lparr>MD = mkBare 1 7 [] True 1, SigInfo = 1\<rparr>) = Inr True \<and>
      entries (idJournal (snd (removeFlushedEntry sampleEnv 1 1 [1, 0, 7, 1, 1, 0]
          \<lparr>MD = mkBare 1 7 [] True 1, SigInfo = 1\<rparr> (journalOf 7 1 [mkBare 1 7 [] True 1])))) =
        tl (entries (idJournal (journalOf 7 1 [mkBare 1 7 [] True 1]))) \<and>
      lastMdID (snd (removeFlushedEntry sampleEnv 1 1 [1, 0, 7, 1, 1, 0]
          \<lparr>MD = mkBare 1 7 [] True 1, SigInfo = 1\<rparr> (journalOf 7 1 [mkBare 1 7 [] True 1]))) =
        [1, 0, 7, 1, 1, 0])"
proof -
  let ?J = "journalOf 7 1 [mkBare 1 7 [] True 1]"
  let ?r = "removeFlushedEntry sampleEnv 1 1 [1, 0, 7, 1, 1, 0]
          \<lparr>MD = mkBare 1 7 [] True 1, SigInfo = 1\<rparr> ?J"
  have h: "fst ?r = None"
    by (simp add: removeFlushedEntry_def getEarliest_def getMD_def j_getEarliest_def
        j_removeEarliest_def os_Remove_def MakeImmutableBareRootMetadata_def sample_defs)
  then have h': "?r = (None, snd ?r)" by (simp add: prod_eq_iff)
  have e: "ids (idJournal (snd ?r)) = []"
    by (simp add: removeFlushedEntry_def getEarliest_def getMD_def j_getEarliest_def
        j_removeEarliest_def os_Remove_def MakeImmutableBareRootMetadata_def sample_defs)
  from removeFlushedEntry_success [OF h'] obtain rest r ts where
    1: "ids (idJournal ?J) = [1, 0, 7, 1, 1, 0] # rest" and
    2: "fst (getMD sampleEnv 1 1 [1, 0, 7, 1, 1, 0] True ?J) = Inr (r, ts)" and
    3: "CodecEqual sampleEnv r (MD \<lparr>MD = mkBare 1 7 [] True 1, SigInfo = 1\<rparr>) = Inr True" and
    4: "entries (idJournal (snd ?r)) = tl (entries (idJournal ?J))" and
    5: "lastMdID (snd ?r) =
         (if ids (idJournal (snd ?r)) = [] then [1, 0, 7, 1, 1, 0] else lastMdID ?J)"
    by blast
  from 5 e have 6: "lastMdID (snd ?r) = [1, 0, 7, 1, 1, 0]" by simp
  from h 1 2 3 4 6 show ?thesis by blast
qed

section \<open>Clearing a branch\<close>

text \<open>
  Claim C8, as amended. \<^verbatim>\<open>clear(bid)\<close> with the null branch ID fails with the
  invalid-argument error and changes nothing. With a \<^verbatim>\<open>bid\<close> that is not the journal's
  branch, or on an empty journal, it leaves the journal unchanged (and returns the error
  of reading the head, if that fails). Otherwise, when the head can be read and passes
  the reader check and the calls of the ordinal log succeed, it sets the branch ID to the
  null branch ID, empties the ordinal log and leaves \<^verbatim>\<open>lastMdID\<close> as it was.
\<close>

theorem clear_cases:
  "(bid = NullBranchID \<longrightarrow> clear E uid key bid extra J = (Some ErrClearMaster, J)) \<and>
   (bid \<noteq> NullBranchID \<and> (bid \<noteq> branchID J \<or> ids (idJournal J) = []) \<longrightarrow>
      clear E uid key bid extra J =
        (case fst (getHead E uid key extra J) of Inl e \<Rightarrow> Some e | Inr head \<Rightarrow> None, J)) \<and>
   (bid \<noteq> NullBranchID \<and> bid = branchID J \<and>
    fst (getHead E uid key extra J) = Inr (Some head) \<and>
    \<not> fault E OpReadEarliestRevision \<and> \<not> fault E OpReadLatestRevision \<and>
    \<not> fault E OpGetRange \<and> \<not> fault E OpClear \<longrightarrow>
      branchID (snd (clear E uid key bid extra J)) = NullBranchID \<and>
      ids (idJournal (snd (clear E uid key bid extra J))) = [] \<and>
      lastMdID (snd (clear E uid key bid extra J)) = lastMdID J)"
proof (intro conjI impI)
  assume "bid = NullBranchID"
  then show "clear E uid key bid extra J = (Some ErrClearMaster, J)"
    by (simp add: clear_def)
next
  assume a: "bid \<noteq> NullBranchID \<and> (bid \<noteq> branchID J \<or> ids (idJournal J) = [])"
  obtain res J1 where g: "checkGetParams E uid key extra J = (res, J1)" by force
  then have J1: "J1 = J" by (rule checkGetParams_frameD)
  show "clear E uid key bid extra J =
        (case fst (getHead E uid key extra J) of Inl e \<Rightarrow> Some e | Inr head \<Rightarrow> None, J)"
  proof (cases res)
    case (Inl e)
    with a g J1 show ?thesis by (simp add: clear_def getHead_def)
  next
    case (Inr ho)
    show ?thesis
    proof (cases ho)
      case None
      with a g J1 Inr show ?thesis by (simp add: clear_def getHead_def)
    next
      case (Some h)
      with g Inr J1 have gl: "getLatest E uid key True J = (Inr (Some h), J)"
        by (simp add: checkGetParams_SomeD)
      from getLatest_SomeD(4) [OF gl] have "BID (brmd h) = branchID J"
        by (rule getMD_InrD(5)) simp
      moreover from getLatest_SomeD(1) [OF gl] have "ids (idJournal J) \<noteq> []" .
      ultimately show ?thesis
        using a g J1 Inr Some by (simp add: clear_def getHead_def)
    qed
  qed
next
  assume a: "bid \<noteq> NullBranchID \<and> bid = branchID J \<and>
    fst (getHead E uid key extra J) = Inr (Some head) \<and>
    \<not> fault E OpReadEarliestRevision \<and> \<not> fault E OpReadLatestRevision \<and>
    \<not> fault E OpGetRange \<and> \<not> fault E OpClear"
  then have g: "getHead E uid key extra J = (Inr (Some head), J)"
    using checkGetParams_frame [of E uid key extra J] by (simp add: getHead_def prod_eq_iff)
  then have gl: "getLatest E uid key True J = (Inr (Some head), J)"
    by (simp add: getHead_def checkGetParams_SomeD)
  from getLatest_SomeD(4) [OF gl] have b: "BID (brmd head) = branchID J"
    by (rule getMD_InrD(5)) simp
  have "\<exists>er. j_readEarliestRevision (fault E) (idJournal J) = Inr er"
    using a by (simp add: j_readEarliestRevision_def)
  then obtain er where r1: "j_readEarliestRevision (fault E) (idJournal J) = Inr er" ..
  have "\<exists>lr. j_readLatestRevision (fault E) (idJournal J) = Inr lr"
    using a by (simp add: j_readLatestRevision_def)
  then obtain lr where r2: "j_readLatestRevision (fault E) (idJournal J) = Inr lr" ..
  have "\<exists>rs ms. j_getRange (fault E) (idJournal J) er lr = Inr (rs, ms)"
    using a by (simp add: j_getRange_def Let_def)
  then obtain rs ms where r3: "j_getRange (fault E) (idJournal J) er lr = Inr (rs, ms)"
    by blast
  have c: "clear E uid key bid extra J =
     clearLoop E ms (J\<lparr>branchID := NullBranchID, idJournal := (idJournal J)\<lparr>ids := []\<rparr>\<rparr>)"
    using a g b r1 r2 r3 by (simp add: clear_def j_clear_def Let_def)
  have l: "\<And>J0. branchID (snd (clearLoop E ms J0)) = branchID J0 \<and>
          idJournal (snd (clearLoop E ms J0)) = idJournal J0 \<and>
          lastMdID (snd (clearLoop E ms J0)) = lastMdID J0"
    by (induction ms) (auto simp: os_Remove_def split: prod.splits option.splits)
  show "branchID (snd (clear E uid key bid extra J)) = NullBranchID"
    by (simp add: c l)
  show "ids (idJournal (snd (clear E uid key bid extra J))) = []"
    by (simp add: c l)
  show "lastMdID (snd (clear E uid key bid extra J)) = lastMdID J"
    by (simp add: c l)
qed

theorem clear_cases_witness:
  "clear sampleEnv 1 1 0 0 (journalOf 7 1 [mkBare 1 7 [] True 1]) =
     (Some ErrClearMaster, journalOf 7 1 [mkBare 1 7 [] True 1]) \<and>
   clear sampleEnv 1 1 9 0 (journalOf 7 1 [mkBare 1 7 [] True 1]) =
     (None, journalOf 7 1 [mkBare 1 7 [] True 1]) \<and>
   branchID (snd (clear sampleEnv 1 1 7 0 (journalOf 7 1 [mkBare 1 7 [] True 1]))) =
     NullBranchID \<and>
   ids (idJournal (snd (clear sampleEnv 1 1 7 0 (journalOf 7 1 [mkBare 1 7 [] True 1])))) = [] \<and>
   lastMdID (snd (clear sampleEnv 1 1 7 0 (journalOf 7 1 [mkBare 1 7 [] True 1]))) =
     lastMdID (journalOf 7 1 [mkBare 1 7 [] True 1])"
proof -
  let ?J = "journalOf 7 1 [mkBare 1 7 [] True 1]"
  let ?h = "\<lparr>brmd = mkBare 1 7 [] True 1, mdID = [1, 0, 7, 1, 1, 0], localTimestamp = 100\<rparr>"
  have gh: "fst (getHead sampleEnv 1 1 0 ?J) = Inr (Some ?h)"
    by (simp add: getHead_def checkGetParams_def getLatest_def getMD_def j_getLatest_def
        MakeImmutableBareRootMetadata_def sample_defs)
  have b: "branchID ?J = 7" by (simp add: journalOf_def)
  have f: "\<not> fault sampleEnv OpReadEarliestRevision" "\<not> fault sampleEnv OpReadLatestRevision"
    "\<not> fault sampleEnv OpGetRange" "\<not> fault sampleEnv OpClear"
    by (simp_all add: sampleEnv_def)
  have 1: "clear sampleEnv 1 1 0 0 ?J = (Some ErrClearMaster, ?J)"
    using clear_cases [where bid = 0 and E = sampleEnv and uid = 1 and key = 1 and extra = 0
        and J = ?J] by simp
  have 2: "clear sampleEnv 1 1 9 0 ?J = (None, ?J)"
    using clear_cases [where bid = 9 and E = sampleEnv and uid = 1 and key = 1 and extra = 0
        and J = ?J] b unfolding gh by simp
  have 3: "branchID (snd (clear sampleEnv 1 1 7 0 ?J)) = NullBranchID \<and>
      ids (idJournal (snd (clear sampleEnv 1 1 7 0 ?J))) = [] \<and>
      lastMdID (snd (clear sampleEnv 1 1 7 0 ?J)) = lastMdID ?J"
    using clear_cases [where bid = 7 and E = sampleEnv and uid = 1 and key = 1 and extra = 0
        and J = ?J and head = ?h] b gh f by simp
  from 1 2 3 show ?thesis by blast
qed

text \<open>
  The claim as stated fails when the user is not a reader of the head: \<^verbatim>\<open>clear(7)\<close> on
  the non-empty journal of branch 7 returns the authorization error and the journal
  stays on branch 7 with its entry.
\<close>

theorem clear_counterexample:
  "(7::nat) \<noteq> NullBranchID \<and>
   branchID (journalOf 7 1 [mkBare 1 7 [] True 1]) = 7 \<and>
   ids (idJournal (journalOf 7 1 [mkBare 1 7 [] True 1])) \<noteq> [] \<and>
   clear notReaderEnv 1 1 7 0 (journalOf 7 1 [mkBare 1 7 [] True 1]) =
     (Some MDServerErrorUnauthorized, journalOf 7 1 [mkBare 1 7 [] True 1])"
  by (simp add: notReaderEnv_def clear_def getHead_def checkGetParams_def getLatest_def getMD_def j_getLatest_def
      MakeImmutableBareRootMetadata_def sample_defs)

section \<open>The ordinal log after a successful put\<close>

lemma putMD_fields:
  assumes "putMD E uid key b J = (r, J')"
  shows "idJournal J' = idJournal J" and "branchID J' = branchID J"
    and "lastMdID J' = lastMdID J"
proof -
  obtain g J1 where g: "getMD E uid key (case MakeMdID E b of Inr i \<Rightarrow> i | Inl e \<Rightarrow> []) True J = (g, J1)"
    by force
  then have J1: "J1 = J" by (rule getMD_frameD)
  from assms g J1 have "idJournal J' = idJournal J \<and> branchID J' = branchID J \<and>
      lastMdID J' = lastMdID J"
    by (auto simp: putMD_def split: option.splits sum.splits if_splits)
  then show "idJournal J' = idJournal J" and "branchID J' = branchID J"
    and "lastMdID J' = lastMdID J" by simp_all
qed

lemma j_append_InrD:
  assumes "j_append flt l r i = Inr l'"
  shows "ids l' = ids l @ [i]" and "first l' + int (length (ids l)) = r"
    and "ids l \<noteq> [] \<Longrightarrow> first l' = first l" and "dir l' = dir l"
  using assms by (auto simp: j_append_def split: if_splits)

lemma j_replaceHead_InrD:
  assumes "j_replaceHead flt l i = Inr l'"
  shows "ids l' = butlast (ids l) @ [i]" and "first l' = first l" and "ids l \<noteq> []"
  using assms by (auto simp: j_replaceHead_def split: if_splits)

lemma entries_last:
  assumes "ids l \<noteq> []"
  shows "last (entries l) = (first l + int (length (ids l)) - 1, last (ids l))"
proof -
  let ?n = "length (ids l)"
  from assms have n: "0 < ?n" by simp
  have "last (map (\<lambda>i. first l + int i) [0..<?n]) = first l + int (?n - 1)"
    using n by (simp add: last_map)
  also have "\<dots> = first l + int ?n - 1" using n by (cases "?n") simp_all
  finally have "last (map (\<lambda>i. first l + int i) [0..<?n]) = first l + int ?n - 1" .
  moreover have "last (zip (map (\<lambda>i. first l + int i) [0..<?n]) (ids l)) =
      (last (map (\<lambda>i. first l + int i) [0..<?n]), last (ids l))"
    using assms by (intro last_zip) simp_all
  ultimately show ?thesis by (simp add: entries_def)
qed

lemma put_common_InrD:
  assumes ok: "put_common E uid key head mStatus rmd J = (Inr i, J')"
    and enc: "\<forall>u r b. encryptMDPrivateData E u r = Inr b \<longrightarrow> Revision b = Revision (bareMd r)"
  shows "(case head of None \<Rightarrow> False | Some h \<Rightarrow> Revision (bareMd rmd) = Revision (brmd h)) \<Longrightarrow>
           ids (idJournal J) \<noteq> [] \<and> ids (idJournal J') = butlast (ids (idJournal J)) @ [i] \<and>
           first (idJournal J') = first (idJournal J)"
    and "\<not> (case head of None \<Rightarrow> False | Some h \<Rightarrow> Revision (bareMd rmd) = Revision (brmd h)) \<Longrightarrow>
           ids (idJournal J') = ids (idJournal J) @ [i] \<and>
           first (idJournal J') + int (length (ids (idJournal J))) = Revision (bareMd rmd)"
proof -
  from ok obtain b where b: "encryptMDPrivateData E uid rmd = Inr b"
    by (auto simp: put_common_def split: if_splits option.splits sum.splits)
  with enc have rev: "Revision b = Revision (bareMd rmd)" by blast
  from ok b obtain J1 where p: "putMD E uid key b J = (Inr i, J1)"
    by (auto simp: put_common_def split: if_splits option.splits sum.splits prod.splits)
  note f = putMD_fields [OF p]
  {
    assume c: "case head of None \<Rightarrow> False | Some h \<Rightarrow> Revision (bareMd rmd) = Revision (brmd h)"
    with ok b p obtain l where "j_replaceHead (fault E) (idJournal J1) i = Inr l"
      and "J' = J1\<lparr>idJournal := l, lastMdID := zeroMdID\<rparr>"
      by (auto simp: put_common_def split: if_splits option.splits sum.splits)
    then show "ids (idJournal J) \<noteq> [] \<and> ids (idJournal J') = butlast (ids (idJournal J)) @ [i] \<and>
           first (idJournal J') = first (idJournal J)"
      using f by (auto dest: j_replaceHead_InrD)
  }
  {
    assume c: "\<not> (case head of None \<Rightarrow> False | Some h \<Rightarrow> Revision (bareMd rmd) = Revision (brmd h))"
    with ok b p obtain l where "j_append (fault E) (idJournal J1) (Revision b) i = Inr l"
      and "J' = J1\<lparr>idJournal := l, lastMdID := zeroMdID\<rparr>"
      by (auto simp: put_common_def split: if_splits option.splits sum.splits)
    then show "ids (idJournal J') = ids (idJournal J) @ [i] \<and>
           first (idJournal J') + int (length (ids (idJournal J))) = Revision (bareMd rmd)"
      using f rev by (auto dest: j_append_InrD)
  }
qed

text \<open>
  Every successful \<^verbatim>\<open>put\<close> ends in the common part, run on a journal with the same
  ordinal log and on an RMD of the same revision.
\<close>

lemma put_InrD:
  assumes "put E uid key rmd J = (Inr i, J', rmd')"
  shows "\<exists>head rmd1 J1. getLatest E uid key True J = (Inr head, J) \<and>
           put_common E uid key head (MergedStatus (bareMd rmd)) rmd1 J1 = (Inr i, J') \<and>
           Revision (bareMd rmd1) = Revision (bareMd rmd) \<and> idJournal J1 = idJournal J"
proof -
  obtain res J0 where g: "getLatest E uid key True J = (res, J0)" by force
  then have J0: "J0 = J" by (rule getLatest_frameD)
  from assms g obtain head where res: "res = Inr head"
    by (cases res) (auto simp: put_def)
  let ?st = "MergedStatus (bareMd rmd)"
  let ?u1 = "rmd\<lparr>bareMd := SetPrevRoot (case head of None \<Rightarrow> lastMdID J | Some h \<Rightarrow> mdID h)
                 (SetBranchID (branchID J) (bareMd rmd))\<rparr>"
  from g J0 res have gl: "getLatest E uid key True J = (Inr head, J)" by simp
  consider (u3) "?st = Unmerged" "head = None" "branchID J = NullBranchID"
    | (u1) "?st = Unmerged" "\<not> (head = None \<and> branchID J = NullBranchID)"
           "BID (bareMd rmd) = NullBranchID"
    | (u2) "?st = Unmerged" "\<not> (head = None \<and> branchID J = NullBranchID)"
           "BID (bareMd rmd) \<noteq> NullBranchID"
    | (m) "?st \<noteq> Unmerged"
    by auto
  then show ?thesis
  proof cases
    case u3
    with assms gl
    have "put_common E uid key head ?st rmd (J\<lparr>branchID := BID (bareMd rmd)\<rparr>) = (Inr i, J')"
      by (auto simp: put_def Let_def split: if_splits prod.splits sum.splits)
    with gl show ?thesis
      by (intro exI [of _ head] exI [of _ rmd] exI [of _ "J\<lparr>branchID := BID (bareMd rmd)\<rparr>"])
         simp
  next
    case u1
    with assms gl have "put_common E uid key head ?st ?u1 J = (Inr i, J')"
      by (auto simp: put_def Let_def split: if_splits prod.splits sum.splits)
    with gl show ?thesis
      by (intro exI [of _ head] exI [of _ ?u1] exI [of _ J])
         (simp add: SetPrevRoot_def SetBranchID_def)
  next
    case u2
    with assms gl have "put_common E uid key head ?st rmd J = (Inr i, J')"
      by (auto simp: put_def Let_def split: if_splits prod.splits sum.splits)
    with gl show ?thesis
      by (intro exI [of _ head] exI [of _ rmd] exI [of _ J]) simp
  next
    case m
    with assms gl have "put_common E uid key head ?st rmd J = (Inr i, J')"
      by (auto simp: put_def Let_def split: if_splits prod.splits sum.splits)
    with gl show ?thesis
      by (intro exI [of _ head] exI [of _ rmd] exI [of _ J]) simp
  qed
qed

text \<open>
  Claim C1. Let \<^verbatim>\<open>put(rmd)\<close> return \<open>i\<close> without error, and let the encryption step keep
  the revision number. If the head was empty (as it is when the journal is empty) or the
  RMD's revision is greater than the head's, the latest log entry is now
  \<open>(rmd.revision, i)\<close> and the log is longer by one. If the RMD's revision equals the
  head's, the latest entry's MdID is \<open>i\<close> and the length is unchanged. The head is what
  \<^verbatim>\<open>getLatest\<close> returns, its revision that of the stored RMD.
\<close>

theorem put_success_log:
  assumes ok: "put E uid key rmd J = (Inr i, J', rmd')"
    and enc: "\<forall>u r b. encryptMDPrivateData E u r = Inr b \<longrightarrow> Revision b = Revision (bareMd r)"
  shows "(ids (idJournal J) = [] \<or> fst (getLatest E uid key True J) = Inr None \<or>
          (\<exists>h. fst (getLatest E uid key True J) = Inr (Some h) \<and>
                Revision (brmd h) < Revision (bareMd rmd)) \<longrightarrow>
            last (entries (idJournal J')) = (Revision (bareMd rmd), i) \<and>
            length (ids (idJournal J')) = length (ids (idJournal J)) + 1) \<and>
         ((\<exists>h. fst (getLatest E uid key True J) = Inr (Some h) \<and>
                Revision (brmd h) = Revision (bareMd rmd)) \<longrightarrow>
            snd (last (entries (idJournal J'))) = i \<and>
            length (ids (idJournal J')) = length (ids (idJournal J)))"
proof -
  from put_InrD [OF ok] obtain head rmd1 J1 where
    g: "getLatest E uid key True J = (Inr head, J)" and
    pc: "put_common E uid key head (MergedStatus (bareMd rmd)) rmd1 J1 = (Inr i, J')" and
    rev: "Revision (bareMd rmd1) = Revision (bareMd rmd)" and
    lg: "idJournal J1 = idJournal J"
    by blast
  have e: "ids (idJournal J) = [] \<Longrightarrow> head = None"
    using g by (auto simp: getLatest_empty split: if_splits)
  have app: "last (entries (idJournal J')) = (Revision (bareMd rmd), i) \<and>
            length (ids (idJournal J')) = length (ids (idJournal J)) + 1"
    if "\<not> (case head of None \<Rightarrow> False | Some h \<Rightarrow> Revision (bareMd rmd) = Revision (brmd h))"
  proof -
    from that rev
    have "\<not> (case head of None \<Rightarrow> False | Some h \<Rightarrow> Revision (bareMd rmd1) = Revision (brmd h))"
      by (simp split: option.splits)
    from put_common_InrD(2) [OF pc enc this] rev lg
    have a: "ids (idJournal J') = ids (idJournal J) @ [i]"
      and b: "first (idJournal J') + int (length (ids (idJournal J))) = Revision (bareMd rmd)"
      by simp_all
    from a have "ids (idJournal J') \<noteq> []" by simp
    from entries_last [OF this] a b show ?thesis by simp
  qed
  have rep: "snd (last (entries (idJournal J'))) = i \<and>
            length (ids (idJournal J')) = length (ids (idJournal J))"
    if "case head of None \<Rightarrow> False | Some h \<Rightarrow> Revision (bareMd rmd) = Revision (brmd h)"
  proof -
    from that rev
    have "case head of None \<Rightarrow> False | Some h \<Rightarrow> Revision (bareMd rmd1) = Revision (brmd h)"
      by (simp split: option.splits)
    from put_common_InrD(1) [OF pc enc this] rev lg
    have a: "ids (idJournal J') = butlast (ids (idJournal J)) @ [i]"
      and n: "ids (idJournal J) \<noteq> []"
      by simp_all
    from a have "ids (idJournal J') \<noteq> []" by simp
    from entries_last [OF this] a n show ?thesis by simp
  qed
  show ?thesis
    using g e app rep by (auto split: option.splits)
qed

theorem put_success_log_witness:
  "fst (put sampleEnv 1 1 (mkRMD 2 0 [1, 0, 0, 0, 5, 0] False)
          (journalOf 0 1 [mkBare 1 0 [] False 5])) = Inr [2, 0, 0, 0, 0, 0, 1, 0, 0, 0, 5, 0] \<and>
   last (entries (idJournal (fst (snd (put sampleEnv 1 1 (mkRMD 2 0 [1, 0, 0, 0, 5, 0] False)
          (journalOf 0 1 [mkBare 1 0 [] False 5])))))) =
     (2, [2, 0, 0, 0, 0, 0, 1, 0, 0, 0, 5, 0]) \<and>
   length (ids (idJournal (fst (snd (put sampleEnv 1 1 (mkRMD 2 0 [1, 0, 0, 0, 5, 0] False)
          (journalOf 0 1 [mkBare 1 0 [] False 5])))))) = 2 \<and>
   fst (put sampleEnv 1 1 (mkRMD 1 0 [] False) (journalOf 0 1 [mkBare 1 0 [] False 5])) =
     Inr [1, 0, 0, 0, 0, 0] \<and>
   snd (last (entries (idJournal (fst (snd (put sampleEnv 1 1 (mkRMD 1 0 [] False)
          (journalOf 0 1 [mkBare 1 0 [] False 5]))))))) = [1, 0, 0, 0, 0, 0] \<and>
   length (ids (idJournal (fst (snd (put sampleEnv 1 1 (mkRMD 1 0 [] False)
          (journalOf 0 1 [mkBare 1 0 [] False 5])))))) = 1"
proof -
  let ?J = "journalOf 0 1 [mkBare 1 0 [] False 5]"
  let ?h = "\<lparr>brmd = mkBare 1 0 [] False 5, mdID = [1, 0, 0, 0, 5, 0], localTimestamp = 100\<rparr>"
  let ?a = "put sampleEnv 1 1 (mkRMD 2 0 [1, 0, 0, 0, 5, 0] False) ?J"
  let ?b = "put sampleEnv 1 1 (mkRMD 1 0 [] False) ?J"
  have enc: "\<forall>u r b. encryptMDPrivateData sampleEnv u r = Inr b \<longrightarrow>
      Revision b = Revision (bareMd r)"
    by (simp add: sampleEnv_def)
  have gl: "fst (getLatest sampleEnv 1 1 True ?J) = Inr (Some ?h)"
    by (simp add: eval_defs sample_defs)
  have n: "length (ids (idJournal ?J)) = 1" by (simp add: journalOf_def)
  have a: "fst ?a = Inr [2, 0, 0, 0, 0, 0, 1, 0, 0, 0, 5, 0]"
    by (simp add: eval_defs sample_defs)
  then have a': "?a = (Inr [2, 0, 0, 0, 0, 0, 1, 0, 0, 0, 5, 0], fst (snd ?a), snd (snd ?a))"
    by (simp add: prod_eq_iff)
  have ra: "Revision (brmd ?h) < Revision (bareMd (mkRMD 2 0 [1, 0, 0, 0, 5, 0] False))"
    "Revision (bareMd (mkRMD 2 0 [1, 0, 0, 0, 5, 0] False)) = 2"
    by (simp_all add: sample_defs)
  have b: "fst ?b = Inr [1, 0, 0, 0, 0, 0]"
    by (simp add: eval_defs sample_defs)
  then have b': "?b = (Inr [1, 0, 0, 0, 0, 0], fst (snd ?b), snd (snd ?b))"
    by (simp add: prod_eq_iff)
  have rb: "Revision (brmd ?h) = Revision (bareMd (mkRMD 1 0 [] False))"
    by (simp add: sample_defs)
  from put_success_log [OF a' enc] gl ra
  have 1: "last (entries (idJournal (fst (snd ?a)))) = (2, [2, 0, 0, 0, 0, 0, 1, 0, 0, 0, 5, 0]) \<and>
      length (ids (idJournal (fst (snd ?a)))) = 2"
    unfolding n by auto
  from put_success_log [OF b' enc] gl rb
  have 2: "snd (last (entries (idJournal (fst (snd ?b))))) = [1, 0, 0, 0, 0, 0] \<and>
      length (ids (idJournal (fst (snd ?b)))) = 1"
    unfolding n by auto
  from a b 1 2 show ?thesis by blast
qed

section \<open>Case Unmerged-1 of put\<close>

text \<open>
  Claim C4. Let the RMD be unmerged with the null branch ID, the journal be on a branch,
  the head be readable, and \<^verbatim>\<open>lastMdID\<close> be zero unless the log is empty (invariant 6 of
  the data model). Then \<^verbatim>\<open>put\<close> sets the RMD's branch ID to the journal's and its
  \<open>PrevRoot\<close> to the MdID of the latest log entry, or to \<^verbatim>\<open>lastMdID\<close> when the log is
  empty; the RMD it hands back is this one, and the common part of \<^verbatim>\<open>put\<close> (checks,
  \<^verbatim>\<open>putMD\<close>, append or replace) runs on it.
\<close>

theorem put_unmerged_1:
  assumes "MergedStatus (bareMd rmd) = Unmerged" and "BID (bareMd rmd) = NullBranchID"
    and "branchID J \<noteq> NullBranchID"
    and "fst (getLatest E uid key True J) = Inr head"
    and "ids (idJournal J) = [] \<or> lastMdID J = zeroMdID"
  shows "let p = (if ids (idJournal J) = [] then lastMdID J else last (ids (idJournal J)));
             rmd1 = rmd\<lparr>bareMd := (bareMd rmd)\<lparr>BID := branchID J, PrevRoot := p\<rparr>\<rparr>
         in put E uid key rmd J =
              (fst (put_common E uid key head Unmerged rmd1 J),
               snd (put_common E uid key head Unmerged rmd1 J), rmd1)"
proof -
  from assms(4) have gl: "getLatest E uid key True J = (Inr head, J)"
    using getLatest_frame [of E uid key True J] by (simp add: prod_eq_iff)
  have p: "(case head of None \<Rightarrow> lastMdID J | Some h \<Rightarrow> mdID h) =
      (if ids (idJournal J) = [] then lastMdID J else last (ids (idJournal J)))"
  proof (cases head)
    case None
    with gl getLatest_NoneD [of E uid key True J J] assms(5) show ?thesis by auto
  next
    case (Some h)
    with gl getLatest_SomeD(1,2) [of E uid key True J h J] show ?thesis by simp
  qed
  show ?thesis
    using assms(1-3) gl
    by (simp add: put_def Let_def p [symmetric] SetPrevRoot_def SetBranchID_def
        split: prod.splits)
qed

theorem put_unmerged_1_witness:
  "snd (snd (put sampleEnv 1 1 (mkRMD 2 0 [] True) (journalOf 7 1 [mkBare 1 7 [] True 1]))) =
     mkRMD 2 7 [1, 0, 7, 1, 1, 0] True \<and>
   snd (snd (put sampleEnv 1 1 (mkRMD 2 0 [] True) (journalOf 7 1 []\<lparr>lastMdID := [9]\<rparr>))) =
     mkRMD 2 7 [9] True"
proof -
  let ?Ja = "journalOf 7 1 [mkBare 1 7 [] True 1]"
  let ?Jb = "journalOf 7 1 []\<lparr>lastMdID := [9]\<rparr>"
  let ?h = "\<lparr>brmd = mkBare 1 7 [] True 1, mdID = [1, 0, 7, 1, 1, 0], localTimestamp = 100\<rparr>"
  have u: "MergedStatus (bareMd (mkRMD 2 0 [] True)) = Unmerged"
    by (simp add: MergedStatus_def sample_defs)
  have n: "BID (bareMd (mkRMD 2 0 [] True)) = NullBranchID"
    by (simp add: sample_defs)
  have ba: "branchID ?Ja \<noteq> NullBranchID" and bb: "branchID ?Jb \<noteq> NullBranchID"
    by (simp_all add: journalOf_def)
  have ga: "fst (getLatest sampleEnv 1 1 True ?Ja) = Inr (Some ?h)"
    by (simp add: eval_defs sample_defs)
  have gb: "fst (getLatest sampleEnv 1 1 True ?Jb) = Inr None"
    by (simp add: eval_defs sample_defs)
  have ia: "ids (idJournal ?Ja) = [] \<or> lastMdID ?Ja = zeroMdID"
    and ib: "ids (idJournal ?Jb) = [] \<or> lastMdID ?Jb = zeroMdID"
    by (simp_all add: journalOf_def)
  have 1: "snd (snd (put sampleEnv 1 1 (mkRMD 2 0 [] True) ?Ja)) = mkRMD 2 7 [1, 0, 7, 1, 1, 0] True"
    using put_unmerged_1 [OF u n ba ga ia] by (simp add: Let_def sample_defs)
  have 2: "snd (snd (put sampleEnv 1 1 (mkRMD 2 0 [] True) ?Jb)) = mkRMD 2 7 [9] True"
    using put_unmerged_1 [OF u n bb gb ib] by (simp add: Let_def sample_defs)
  from 1 2 show ?thesis by blast
qed

section \<open>Converting the journal to a branch\<close>

lemma storedMD_mds: "mds J1 = mds J2 \<Longrightarrow> storedMD E J1 i = storedMD E J2 i"
  by (simp add: storedMD_def)

lemma chained_mds: "mds J1 = mds J2 \<Longrightarrow> chained E J1 b pv xs = chained E J2 b pv xs"
  by (induction xs arbitrary: pv) (simp_all add: storedMD_mds [of J1 J2] split: option.splits)

lemma chained_mono:
  assumes "\<And>i r. storedMD E J i = Some r \<Longrightarrow> MakeMdID E r = Inr i \<Longrightarrow> BID r = b \<Longrightarrow>
             storedMD E J2 i = Some r"
  shows "chained E J b pv xs \<Longrightarrow> chained E J2 b pv xs"
  by (induction xs arbitrary: pv) (auto split: option.splits dest: assms)

lemma chained_snoc:
  "chained E J b pv (xs @ [i]) =
     (chained E J b pv xs \<and>
      (case storedMD E J i of
         None \<Rightarrow> False
       | Some r \<Rightarrow>
           MakeMdID E r = Inr i \<and> BID r = b \<and> UnmergedFlag r \<and>
           (case (if xs = [] then pv else Some (last xs)) of
              None \<Rightarrow> True | Some p \<Rightarrow> PrevRoot r = p)))"
  by (induction xs arbitrary: pv) (auto split: option.splits)

lemma chained_nth:
  assumes "chained E J b pv xs" and "k < length xs"
  shows "\<exists>r. storedMD E J (xs ! k) = Some r \<and> MakeMdID E r = Inr (xs ! k) \<and> BID r = b \<and>
             UnmergedFlag r \<and> (0 < k \<longrightarrow> PrevRoot r = xs ! (k - 1))"
  using assms
proof (induction xs arbitrary: pv k)
  case Nil
  then show ?case by simp
next
  case (Cons x xs)
  show ?case
  proof (cases k)
    case 0
    with Cons.prems show ?thesis by (auto split: option.splits)
  next
    case (Suc m)
    from Cons.prems have c: "chained E J b (Some x) xs" by (auto split: option.splits)
    from Cons.prems Suc have m: "m < length xs" by simp
    show ?thesis
    proof (cases m)
      case 0
      with c m Suc show ?thesis by (cases xs) (auto split: option.splits)
    next
      case (Suc m')
      with Cons.IH [OF c m] \<open>k = Suc m\<close> show ?thesis by simp
    qed
  qed
qed

text \<open>
  Writing the content file of an RMD keeps every stored RMD that sits under its own MdID.
\<close>

lemma storedMD_write:
  assumes "codec_ok E" and "mdid_inj E"
    and "Encode E r2 = Inr buf" and "MakeMdID E r2 = Inr i2"
    and "storedMD E J i = Some r" and "MakeMdID E r = Inr i"
  shows "storedMD E (J\<lparr>mds := (mds J)(i2 \<mapsto> (buf, t))\<rparr>) i = Some r"
proof (cases "i = i2")
  case True
  with assms(2,4,6) have "r = r2" by (auto simp: mdid_inj_def)
  with True assms(1,3) show ?thesis by (simp add: storedMD_def codec_ok_def)
next
  case False
  with assms(5) show ?thesis by (simp add: storedMD_def)
qed

lemma storedMD_written:
  assumes "codec_ok E" and "Encode E r2 = Inr buf"
  shows "storedMD E (J\<lparr>mds := (mds J)(i2 \<mapsto> (buf, t))\<rparr>) i2 = Some r2"
  using assms by (simp add: storedMD_def codec_ok_def)

text \<open>
  A successful \<^verbatim>\<open>putMD\<close> of an RMD whose branch is not the journal's has written the file
  and returns the RMD's MdID: had the entry been found, \<^verbatim>\<open>getMD\<close> would have rejected its
  branch.
\<close>

lemma putMD_other_branch:
  assumes "putMD E uid key r J = (Inr i, J2)" and "mdid_inj E" and "BID r \<noteq> branchID J"
  shows "MakeMdID E r = Inr i"
    and "\<exists>buf. Encode E r = Inr buf \<and> J2 = J\<lparr>mds := (mds J)(i \<mapsto> (buf, now E))\<rparr>"
proof -
  from assms(1) obtain i0 where i0: "MakeMdID E r = Inr i0"
    by (auto simp: putMD_def split: option.splits sum.splits)
  obtain g J1 where g: "getMD E uid key i0 True J = (g, J1)" by force
  then have J1: "J1 = J" by (rule getMD_frameD)
  have "\<not> (\<exists>x. g = Inr x)"
  proof
    assume "\<exists>x. g = Inr x"
    then obtain r0 ts where "g = Inr (r0, ts)" by auto
    with g have gm: "getMD E uid key i0 True J = (Inr (r0, ts), J1)" by simp
    from getMD_InrD(2) [OF gm] i0 assms(2) have "r0 = r" by (auto simp: mdid_inj_def)
    moreover from getMD_InrD(5) [OF gm] have "BID r0 = branchID J" by simp
    ultimately show False using assms(3) by simp
  qed
  then obtain e where e: "g = Inl e" by (cases g) auto
  from assms(1) i0 g J1 e
  show "MakeMdID E r = Inr i"
    and "\<exists>buf. Encode E r = Inr buf \<and> J2 = J\<lparr>mds := (mds J)(i \<mapsto> (buf, now E))\<rparr>"
    by (auto simp: putMD_def split: option.splits sum.splits if_splits)
qed


lemma convertLoop_ConsD:
  assumes "convertLoop E uid key bid n (i # rest) J tj prev rem = (None, J', tj', rem')"
  shows "\<exists>old ts buf sigInfo b3 newID J2 tj2.
      getMD E uid key i True J = (Inr (old, ts), J) \<and>
      GetSerializedWriterMetadata E (SetBranchID bid (SetUnmerged old)) = Inr buf \<and>
      Sign E buf = Inr sigInfo \<and>
      b3 = (if n > 0
            then SetPrevRoot prev
                   (SetWriterMetadataSigInfo sigInfo (SetBranchID bid (SetUnmerged old)))
            else SetWriterMetadataSigInfo sigInfo (SetBranchID bid (SetUnmerged old))) \<and>
      putMD E uid key b3 J = (Inr newID, J2) \<and>
      j_append (fault E) tj (Revision b3) newID = Inr tj2 \<and>
      convertLoop E uid key bid (Suc n) rest J2 tj2 newID (rem @ [newID]) =
        (None, J', tj', rem')"
proof -
  obtain g J1 where g: "getMD E uid key i True J = (g, J1)" by force
  then have J1: "J1 = J" by (rule getMD_frameD)
  from assms g obtain old ts where old: "g = Inr (old, ts)"
    by (cases g) auto
  let ?b1 = "SetBranchID bid (SetUnmerged old)"
  from assms g old obtain buf where buf: "GetSerializedWriterMetadata E ?b1 = Inr buf"
    by (cases "GetSerializedWriterMetadata E ?b1") (auto simp: Let_def)
  from assms g old buf obtain sigInfo where sg: "Sign E buf = Inr sigInfo"
    by (cases "Sign E buf") (auto simp: Let_def)
  let ?b3 = "if n > 0 then SetPrevRoot prev (SetWriterMetadataSigInfo sigInfo ?b1)
             else SetWriterMetadataSigInfo sigInfo ?b1"
  obtain pr J2 where p: "putMD E uid key ?b3 J1 = (pr, J2)" by force
  from assms g old buf sg p obtain newID where pr: "pr = Inr newID"
    by (cases pr) (auto simp: Let_def)
  from assms g old buf sg p pr obtain tj2 where
    ap: "j_append (fault E) tj (Revision ?b3) newID = Inr tj2"
    by (cases "j_append (fault E) tj (Revision ?b3) newID") (auto simp: Let_def)
  from assms g old buf sg p pr ap
  have "convertLoop E uid key bid (Suc n) rest J2 tj2 newID (rem @ [newID]) =
        (None, J', tj', rem')"
    by (auto simp: Let_def)
  with g J1 old buf sg p pr ap show ?thesis by blast
qed


lemma convertLoop_NoneD:
  assumes "convertLoop E uid key bid n is J tj prev rem = (None, J', tj', rem')"
    and "codec_ok E" and "mdid_inj E" and "bid \<noteq> NullBranchID"
    and "branchID J = NullBranchID"
    and "chained E J bid None (ids tj)"
    and "n = length (ids tj)" and "ids tj \<noteq> [] \<Longrightarrow> prev = last (ids tj)"
  shows "chained E J' bid None (ids tj') \<and>
         length (ids tj') = length (ids tj) + length is \<and>
         idJournal J' = idJournal J \<and> branchID J' = branchID J \<and> lastMdID J' = lastMdID J \<and>
         dir tj' = dir tj \<and>
         (\<forall>x\<in>set is. \<forall>r. MakeMdID E r = Inr x \<longrightarrow> BID r = NullBranchID) \<and>
         (ids tj \<noteq> [] \<longrightarrow> first tj' = first tj) \<and>
         (ids tj = [] \<longrightarrow> is \<noteq> [] \<longrightarrow>
            (\<exists>r. storedMD E J (hd is) = Some r \<and> first tj' = Revision r))"
  using assms
proof (induction "is" arbitrary: n J tj prev rem)
  case Nil
  then show ?case by simp
next
  case (Cons i rest)
  from convertLoop_ConsD [OF Cons.prems(1)] obtain old ts buf sigInfo b3 newID J2 tj2 where
    g: "getMD E uid key i True J = (Inr (old, ts), J)" and
    b3: "b3 = (if n > 0
            then SetPrevRoot prev
                   (SetWriterMetadataSigInfo sigInfo (SetBranchID bid (SetUnmerged old)))
            else SetWriterMetadataSigInfo sigInfo (SetBranchID bid (SetUnmerged old)))" and
    p: "putMD E uid key b3 J = (Inr newID, J2)" and
    ap: "j_append (fault E) tj (Revision b3) newID = Inr tj2" and
    rec: "convertLoop E uid key bid (Suc n) rest J2 tj2 newID (rem @ [newID]) =
        (None, J', tj', rem')"
    by blast
  note co = Cons.prems(2) and inj = Cons.prems(3) and bid = Cons.prems(4)
    and br = Cons.prems(5) and ch = Cons.prems(6) and n = Cons.prems(7)
  have pv: "ids tj \<noteq> [] \<Longrightarrow> prev = last (ids tj)" by (rule Cons.prems(8))
  \<comment> \<open>the old RMD\<close>
  from getMD_InrD(1) [OF g] have st_old: "storedMD E J i = Some old"
    by (auto simp: storedMD_def)
  from getMD_InrD(2) [OF g] have id_old: "MakeMdID E old = Inr i" .
  from getMD_InrD(5) [OF g] br have bid_old: "BID old = NullBranchID" by simp
  \<comment> \<open>the new RMD\<close>
  have b3_bid: "BID b3 = bid" and b3_un: "UnmergedFlag b3"
    and b3_rev: "Revision b3 = Revision old"
    and b3_prev: "n > 0 \<Longrightarrow> PrevRoot b3 = prev"
    by (simp_all add: b3 SetPrevRoot_def SetWriterMetadataSigInfo_def SetBranchID_def
        SetUnmerged_def)
  from b3_bid bid br have "BID b3 \<noteq> branchID J" by simp
  from putMD_other_branch [OF p inj this] obtain buf3 where
    id_new: "MakeMdID E b3 = Inr newID" and enc: "Encode E b3 = Inr buf3" and
    J2: "J2 = J\<lparr>mds := (mds J)(newID \<mapsto> (buf3, now E))\<rparr>"
    by blast
  have st_new: "storedMD E J2 newID = Some b3"
    unfolding J2 using co enc by (rule storedMD_written)
  have keep: "storedMD E J2 x = Some r" if "storedMD E J x = Some r" "MakeMdID E r = Inr x" for x r
    unfolding J2 using co inj enc id_new that by (rule storedMD_write)
  have ch2: "chained E J2 bid None (ids tj)"
    using ch by (rule chained_mono [rotated]) (rule keep)
  from j_append_InrD [OF ap] have
    ids2: "ids tj2 = ids tj @ [newID]" and
    f2: "first tj2 + int (length (ids tj)) = Revision b3" and
    f2': "ids tj \<noteq> [] \<Longrightarrow> first tj2 = first tj" and d2: "dir tj2 = dir tj"
    by simp_all
  have ch3: "chained E J2 bid None (ids tj2)"
    unfolding ids2 chained_snoc
    using ch2 st_new id_new b3_bid b3_un b3_prev pv n by (cases "ids tj = []") simp_all
  have br2: "branchID J2 = NullBranchID" using br by (simp add: J2)
  have n2: "Suc n = length (ids tj2)" using n by (simp add: ids2)
  have pv2: "ids tj2 \<noteq> [] \<Longrightarrow> newID = last (ids tj2)" by (simp add: ids2)
  note IH = Cons.IH [OF rec co inj bid br2 ch3 n2 pv2]
  have old_all: "\<forall>r. MakeMdID E r = Inr i \<longrightarrow> BID r = NullBranchID"
    using id_old bid_old inj by (auto simp: mdid_inj_def)
  have ne2: "ids tj2 \<noteq> []" by (simp add: ids2)
  from IH ne2 have f': "first tj' = first tj2" by blast
  have first_e: "ids tj = [] \<Longrightarrow> first tj' = Revision old"
    using f' f2 b3_rev by simp
  show ?case
    using IH old_all f' f2' first_e st_old
    by (auto simp: ids2 J2 d2)
qed


lemma os_Remove_fields:
  "idJournal (snd (os_Remove E x J)) = idJournal J"
  "branchID (snd (os_Remove E x J)) = branchID J"
  "lastMdID (snd (os_Remove E x J)) = lastMdID J"
  "i \<noteq> x \<Longrightarrow> mds (snd (os_Remove E x J)) i = mds J i"
  by (simp_all add: os_Remove_def split: option.splits)

lemma removeMDs_fields:
  "idJournal (removeMDs E xs J) = idJournal J"
  "branchID (removeMDs E xs J) = branchID J"
  "lastMdID (removeMDs E xs J) = lastMdID J"
  by (induction xs arbitrary: J) (simp_all add: os_Remove_fields)

lemma removeMDs_mds: "i \<notin> set xs \<Longrightarrow> mds (removeMDs E xs J) i = mds J i"
  by (induction xs arbitrary: J) (simp_all add: os_Remove_fields)

lemma removeMDs_storedMD: "i \<notin> set xs \<Longrightarrow> storedMD E (removeMDs E xs J) i = storedMD E J i"
  by (simp add: storedMD_def removeMDs_mds)

lemma chained_removeMDs:
  assumes "chained E J b pv xs" and "b \<noteq> NullBranchID"
    and "\<forall>x\<in>set rm. \<forall>r. MakeMdID E r = Inr x \<longrightarrow> BID r = NullBranchID"
  shows "chained E (removeMDs E rm J) b pv xs"
  using assms(1)
proof (rule chained_mono [rotated])
  fix i r
  assume "storedMD E J i = Some r" and "MakeMdID E r = Inr i" and "BID r = b"
  with assms(2,3) have "i \<notin> set rm" by auto
  with \<open>storedMD E J i = Some r\<close> show "storedMD E (removeMDs E rm J) i = Some r"
    by (simp add: removeMDs_storedMD)
qed

lemma j_getRange_all:
  assumes "j_readEarliestRevision flt l = Inr er" and "j_readLatestRevision flt l = Inr lr"
    and "j_getRange flt l er lr = Inr (rs, ms)"
  shows "ms = ids l"
  using assms
  by (auto simp: j_readEarliestRevision_def j_readLatestRevision_def j_getRange_def Let_def
      split: if_splits)

lemma j_move_InrD:
  assumes "j_move flt l d = Inr (d0, l')"
  shows "ids l' = ids l" and "first l' = first l"
  using assms by (auto simp: j_move_def split: if_splits)

lemma map_fst_entries: "map fst (entries l) = map (\<lambda>i. first l + int i) [0..<length (ids l)]"
  by (simp add: entries_def)

lemma convertToBranch_InrD:
  assumes "convertToBranch E uid key J = (Inr newBID, J')"
  shows "\<exists>er lr rs ms tmp J1 tj rem d movedOld d' movedNew.
      branchID J = NullBranchID \<and>
      j_readEarliestRevision (fault E) (idJournal J) = Inr er \<and>
      j_readLatestRevision (fault E) (idJournal J) = Inr lr \<and>
      j_getRange (fault E) (idJournal J) er lr = Inr (rs, ms) \<and>
      MakeRandomBranchID E = Inr newBID \<and> TempDir E = Inr tmp \<and>
      convertLoop E uid key newBID 0 ms J (makeMdIDJournal tmp) zeroMdID [] =
        (None, J1, tj, rem) \<and>
      j_move (fault E) (idJournal J1) (tmp @ ''.old'') = Inr (d, movedOld) \<and>
      j_move (fault E) tj d = Inr (d', movedNew) \<and>
      J' = removeMDs E ms (J1\<lparr>idJournal := movedNew, branchID := newBID\<rparr>)"
proof -
  from assms have b: "branchID J = NullBranchID"
    by (auto simp: convertToBranch_def split: if_splits)
  from assms b obtain er where er: "j_readEarliestRevision (fault E) (idJournal J) = Inr er"
    by (cases "j_readEarliestRevision (fault E) (idJournal J)") (auto simp: convertToBranch_def)
  from assms b er obtain lr where lr: "j_readLatestRevision (fault E) (idJournal J) = Inr lr"
    by (cases "j_readLatestRevision (fault E) (idJournal J)") (auto simp: convertToBranch_def)
  from assms b er lr obtain rs ms where
    gr: "j_getRange (fault E) (idJournal J) er lr = Inr (rs, ms)"
    by (cases "j_getRange (fault E) (idJournal J) er lr") (auto simp: convertToBranch_def)
  from assms b er lr gr obtain bid where bid: "MakeRandomBranchID E = Inr bid"
    by (cases "MakeRandomBranchID E") (auto simp: convertToBranch_def)
  from assms b er lr gr bid obtain tmp where tmp: "TempDir E = Inr tmp"
    by (cases "TempDir E") (auto simp: convertToBranch_def)
  obtain le J1 tj rem where
    lp: "convertLoop E uid key bid 0 ms J (makeMdIDJournal tmp) zeroMdID [] = (le, J1, tj, rem)"
    by (metis prod_cases4)
  from assms b er lr gr bid tmp lp have le: "le = None"
    by (cases le) (auto simp: convertToBranch_def)
  from assms b er lr gr bid tmp lp le obtain d movedOld where
    m1: "j_move (fault E) (idJournal J1) (tmp @ ''.old'') = Inr (d, movedOld)"
    by (cases "j_move (fault E) (idJournal J1) (tmp @ ''.old'')") (auto simp: convertToBranch_def)
  from assms b er lr gr bid tmp lp le m1 obtain d' movedNew where
    m2: "j_move (fault E) tj d = Inr (d', movedNew)"
    by (cases "j_move (fault E) tj d") (auto simp: convertToBranch_def)
  from assms b er lr gr bid tmp lp le m1 m2
  have "newBID = bid" and "J' = removeMDs E ms (J1\<lparr>idJournal := movedNew, branchID := bid\<rparr>)"
    by (auto simp: convertToBranch_def)
  with b er lr gr bid tmp lp le m1 m2 show ?thesis by blast
qed

text \<open>
  Claim C5. Let \<^verbatim>\<open>convertToBranch\<close> succeed with \<open>newBID\<close>. Assume of the collaborators
  that decoding inverts encoding, that equal MdIDs mean equal RMDs and that the random
  branch ID is never the null one; assume of the journal that the RMD stored for its
  earliest entry carries that entry's revision (invariant 2 of the data model). Then the
  journal was on the null branch and is now on \<open>newBID\<close>, which is not null; the
  revisions of the log entries are the same as before, one by one; and every entry of
  the new log has a stored RMD on branch \<open>newBID\<close> with unmerged status, whose
  \<open>PrevRoot\<close> is the MdID of the entry before it, under an MdID that differs from the
  old one at the same place.
\<close>

theorem convertToBranch_success:
  assumes ok: "convertToBranch E uid key J = (Inr newBID, J')"
    and co: "codec_ok E" and inj: "mdid_inj E"
    and rnd: "MakeRandomBranchID E \<noteq> Inr NullBranchID"
    and inv2: "\<forall>i rest r. ids (idJournal J) = i # rest \<longrightarrow> storedMD E J i = Some r \<longrightarrow>
                 Revision r = first (idJournal J)"
  shows "branchID J = NullBranchID \<and> branchID J' = newBID \<and> newBID \<noteq> NullBranchID \<and>
         map fst (entries (idJournal J')) = map fst (entries (idJournal J)) \<and>
         (\<forall>k<length (ids (idJournal J')).
            \<exists>r. storedMD E J' (ids (idJournal J') ! k) = Some r \<and>
                BID r = newBID \<and> MergedStatus r = Unmerged \<and>
                (0 < k \<longrightarrow> PrevRoot r = ids (idJournal J') ! (k - 1)) \<and>
                ids (idJournal J') ! k \<noteq> ids (idJournal J) ! k)"
proof -
  from convertToBranch_InrD [OF ok] obtain er lr rs ms tmp J1 tj rem d movedOld d' movedNew
    where b: "branchID J = NullBranchID"
      and er: "j_readEarliestRevision (fault E) (idJournal J) = Inr er"
      and lr: "j_readLatestRevision (fault E) (idJournal J) = Inr lr"
      and gr: "j_getRange (fault E) (idJournal J) er lr = Inr (rs, ms)"
      and bid: "MakeRandomBranchID E = Inr newBID"
      and lp: "convertLoop E uid key newBID 0 ms J (makeMdIDJournal tmp) zeroMdID [] =
                 (None, J1, tj, rem)"
      and m2: "j_move (fault E) tj d = Inr (d', movedNew)"
      and J': "J' = removeMDs E ms (J1\<lparr>idJournal := movedNew, branchID := newBID\<rparr>)"
    by blast
  from bid rnd have nz: "newBID \<noteq> NullBranchID" by auto
  from j_getRange_all [OF er lr gr] have ms: "ms = ids (idJournal J)" .
  have e0: "ids (makeMdIDJournal tmp) = []" by (simp add: makeMdIDJournal_def)
  have "chained E J newBID None (ids (makeMdIDJournal tmp))" by (simp add: e0)
  from convertLoop_NoneD [OF lp co inj nz b this] e0
  have ch: "chained E J1 newBID None (ids tj)"
    and len: "length (ids tj) = length ms"
    and old: "\<forall>x\<in>set ms. \<forall>r. MakeMdID E r = Inr x \<longrightarrow> BID r = NullBranchID"
    and fst: "ms \<noteq> [] \<longrightarrow> (\<exists>r. storedMD E J (hd ms) = Some r \<and> first tj = Revision r)"
    by simp_all
  let ?J2 = "J1\<lparr>idJournal := movedNew, branchID := newBID\<rparr>"
  from j_move_InrD [OF m2] have mv: "ids movedNew = ids tj" "first movedNew = first tj"
    by simp_all
  have lg: "idJournal J' = movedNew" and br: "branchID J' = newBID"
    by (simp_all add: J' removeMDs_fields)
  have "chained E ?J2 newBID None (ids tj)"
    using ch by (simp add: chained_mds [of ?J2 J1])
  then have ch': "chained E J' newBID None (ids (idJournal J'))"
    unfolding J' using nz old
    by (simp add: chained_removeMDs removeMDs_fields mv)
  have ids': "ids (idJournal J') = ids tj" by (simp add: lg mv)
  have revs: "map fst (entries (idJournal J')) = map fst (entries (idJournal J))"
  proof (cases "ids (idJournal J)")
    case Nil
    with len ms ids' show ?thesis by (simp add: map_fst_entries)
  next
    case (Cons i rest)
    with fst ms obtain r where "storedMD E J i = Some r" and "first tj = Revision r" by auto
    with inv2 Cons have "first tj = first (idJournal J)" by simp
    with len ms ids' lg mv show ?thesis by (simp add: map_fst_entries)
  qed
  have each: "\<exists>r. storedMD E J' (ids (idJournal J') ! k) = Some r \<and>
                BID r = newBID \<and> MergedStatus r = Unmerged \<and>
                (0 < k \<longrightarrow> PrevRoot r = ids (idJournal J') ! (k - 1)) \<and>
                ids (idJournal J') ! k \<noteq> ids (idJournal J) ! k"
    if k: "k < length (ids (idJournal J'))" for k
  proof -
    from chained_nth [OF ch' k] obtain r where
      r: "storedMD E J' (ids (idJournal J') ! k) = Some r"
        "MakeMdID E r = Inr (ids (idJournal J') ! k)" "BID r = newBID" "UnmergedFlag r"
        "0 < k \<longrightarrow> PrevRoot r = ids (idJournal J') ! (k - 1)"
      by blast
    from k ids' len ms have "ids (idJournal J) ! k \<in> set ms" by simp
    with old have "\<forall>r. MakeMdID E r = Inr (ids (idJournal J) ! k) \<longrightarrow> BID r = NullBranchID"
      by blast
    with r(2,3) nz have "ids (idJournal J') ! k \<noteq> ids (idJournal J) ! k" by auto
    with r show ?thesis by (auto simp: MergedStatus_def)
  qed
  from b br nz revs each show ?thesis by blast
qed

lemma sampleDecode_sampleEncode: "sampleDecode (sampleEncode r) = Inr r"
  by (simp add: sampleDecode_def sampleEncode_def)

lemma codec_ok_sampleEnv: "codec_ok sampleEnv"
  by (auto simp: codec_ok_def sampleEnv_def sampleDecode_sampleEncode)

lemma mdid_inj_sampleEnv: "mdid_inj sampleEnv"
proof -
  have "a = b" if "sampleEncode a = sampleEncode b" for a b
  proof -
    from that have "sampleDecode (sampleEncode a) = sampleDecode (sampleEncode b)" by simp
    then show ?thesis by (simp add: sampleDecode_sampleEncode)
  qed
  then show ?thesis by (auto simp: mdid_inj_def sampleEnv_def)
qed

theorem convertToBranch_success_witness:
  "fst (convertToBranch sampleEnv 1 1
          (journalOf 0 1 [mkBare 1 0 [] False 0, mkBare 2 0 [1, 0, 0, 0, 0, 0] False 0])) = Inr 7 \<and>
   branchID (snd (convertToBranch sampleEnv 1 1
          (journalOf 0 1 [mkBare 1 0 [] False 0, mkBare 2 0 [1, 0, 0, 0, 0, 0] False 0]))) = 7 \<and>
   map fst (entries (idJournal (snd (convertToBranch sampleEnv 1 1
          (journalOf 0 1 [mkBare 1 0 [] False 0, mkBare 2 0 [1, 0, 0, 0, 0, 0] False 0]))))) =
     [1, 2] \<and>
   (\<exists>r. storedMD sampleEnv (snd (convertToBranch sampleEnv 1 1
          (journalOf 0 1 [mkBare 1 0 [] False 0, mkBare 2 0 [1, 0, 0, 0, 0, 0] False 0])))
          (ids (idJournal (snd (convertToBranch sampleEnv 1 1
          (journalOf 0 1 [mkBare 1 0 [] False 0, mkBare 2 0 [1, 0, 0, 0, 0, 0] False 0])))) ! 1) =
          Some r \<and>
        BID r = 7 \<and> MergedStatus r = Unmerged \<and>
        PrevRoot r = ids (idJournal (snd (convertToBranch sampleEnv 1 1
          (journalOf 0 1 [mkBare 1 0 [] False 0, mkBare 2 0 [1, 0, 0, 0, 0, 0] False 0])))) ! 0 \<and>
        ids (idJournal (snd (convertToBranch sampleEnv 1 1
          (journalOf 0 1 [mkBare 1 0 [] False 0, mkBare 2 0 [1, 0, 0, 0, 0, 0] False 0])))) ! 1 \<noteq>
          [2, 0, 0, 0, 0, 0, 1, 0, 0, 0, 0, 0])"
proof -
  let ?J = "journalOf 0 1 [mkBare 1 0 [] False 0, mkBare 2 0 [1, 0, 0, 0, 0, 0] False 0]"
  let ?c = "convertToBranch sampleEnv 1 1 ?J"
  have f: "fst ?c = Inr 7"
    by (simp add: convertToBranch_def j_readEarliestRevision_def j_readLatestRevision_def
        j_getRange_def j_move_def eval_defs sample_defs Let_def)
  then have ok: "?c = (Inr 7, snd ?c)" by (simp add: prod_eq_iff)
  have rnd: "MakeRandomBranchID sampleEnv \<noteq> Inr NullBranchID" by (simp add: sampleEnv_def)
  have inv2: "\<forall>i rest r. ids (idJournal ?J) = i # rest \<longrightarrow> storedMD sampleEnv ?J i = Some r \<longrightarrow>
      Revision r = first (idJournal ?J)"
    by (simp add: storedMD_def sample_defs)
  have e: "map fst (entries (idJournal ?J)) = [1, 2]"
    by (simp add: entries_def journalOf_def)
  have i1: "ids (idJournal ?J) ! 1 = [2, 0, 0, 0, 0, 0, 1, 0, 0, 0, 0, 0]"
    by (simp add: sample_defs)
  note t = convertToBranch_success [OF ok codec_ok_sampleEnv mdid_inj_sampleEnv rnd inv2]
  from t have b: "branchID (snd ?c) = 7" by blast
  from t e have m: "map fst (entries (idJournal (snd ?c))) = [1, 2]" by simp
  then have "length (map fst (entries (idJournal (snd ?c)))) = 2" by simp
  then have l: "1 < length (ids (idJournal (snd ?c)))" by (simp add: length_entries)
  from t l have "\<exists>r. storedMD sampleEnv (snd ?c) (ids (idJournal (snd ?c)) ! 1) = Some r \<and>
        BID r = 7 \<and> MergedStatus r = Unmerged \<and>
        (0 < (1::nat) \<longrightarrow> PrevRoot r = ids (idJournal (snd ?c)) ! (1 - 1)) \<and>
        ids (idJournal (snd ?c)) ! 1 \<noteq> ids (idJournal ?J) ! 1"
    by blast
  then have "\<exists>r. storedMD sampleEnv (snd ?c) (ids (idJournal (snd ?c)) ! 1) = Some r \<and>
        BID r = 7 \<and> MergedStatus r = Unmerged \<and>
        PrevRoot r = ids (idJournal (snd ?c)) ! 0 \<and>
        ids (idJournal (snd ?c)) ! 1 \<noteq> [2, 0, 0, 0, 0, 0, 1, 0, 0, 0, 0, 0]"
    unfolding i1 by simp
  with f b m show ?thesis by blast
qed

end
